theory Spec2Isabelle
  imports
    Main
    "HOL-Library.AList"
    "HOL-Library.Char_ord"
    "HOL-Library.List_Lexorder"
    "HOL-Library.Sublist"
begin

section \<open>Strings\<close>

text \<open>
  JavaScript strings are modelled as \<^typ>\<open>string\<close>. The development is about ASCII text:
  \<open>toLowerCase\<close> and \<open>toUpperCase\<close> act on the ASCII letters, and the white space of
  \<open>trim\<close> and of the regular expression class \<open>\s\<close> is tab, line feed, vertical tab,
  form feed, carriage return and space. Strings are ordered as \<open><\<close> orders them in
  JavaScript: lexicographically by character code, a proper prefix first.
\<close>

definition isSpace :: "char \<Rightarrow> bool" where
  "isSpace c = (c \<in> set [CHR 0x09, CHR 0x0A, CHR 0x0B, CHR 0x0C, CHR 0x0D, CHR 0x20])"

definition trimStart :: "string \<Rightarrow> string" where
  "trimStart s = dropWhile isSpace s"

definition trimEnd :: "string \<Rightarrow> string" where
  "trimEnd s = rev (dropWhile isSpace (rev s))"

definition trim :: "string \<Rightarrow> string" where
  "trim s = trimEnd (trimStart s)"

definition lowerChar :: "char \<Rightarrow> char" where
  "lowerChar c =
     (if 65 \<le> (of_char c :: nat) \<and> (of_char c :: nat) \<le> 90
      then char_of ((of_char c :: nat) + 32) else c)"

definition upperChar :: "char \<Rightarrow> char" where
  "upperChar c =
     (if 97 \<le> (of_char c :: nat) \<and> (of_char c :: nat) \<le> 122
      then char_of ((of_char c :: nat) - 32) else c)"

definition toLowerCase :: "string \<Rightarrow> string" where
  "toLowerCase s = map lowerChar s"

definition toUpperCase :: "string \<Rightarrow> string" where
  "toUpperCase s = map upperChar s"

text \<open>\<open>Array.prototype.join\<close>: the elements with the separator between them.\<close>

fun join :: "string \<Rightarrow> string list \<Rightarrow> string" where
  "join sep [] = []"
| "join sep [x] = x"
| "join sep (x # y # ys) = x @ sep @ join sep (y # ys)"

text \<open>\<open>s.replace(/c/g, r)\<close> for a single character \<open>c\<close>.\<close>

definition replaceChar :: "char \<Rightarrow> string \<Rightarrow> string \<Rightarrow> string" where
  "replaceChar c r s = concat (map (\<lambda>x. if x = c then r else [x]) s)"

text \<open>Decimal rendering of an integer, as a template literal prints it.\<close>

fun showNat :: "nat \<Rightarrow> string" where
  "showNat n =
     (if n < 10 then [char_of (48 + n)]
      else showNat (n div 10) @ [char_of (48 + n mod 10)])"

definition showInt :: "int \<Rightarrow> string" where
  "showInt i = (if i < 0 then CHR ''-'' # showNat (nat (- i)) else showNat (nat i))"

section \<open>The schema model (\<open>types.ts\<close>)\<close>

text \<open>
  A field declared \<open>f?: T | null\<close> has three states, which the differ and the normalizer
  tell apart from each other only through \<open>??\<close>; they are kept apart here.
  A field declared \<open>f?: T\<close> is an \<^typ>\<open>'a option\<close>.
\<close>

datatype 'a optional = Undefined | Null | Value 'a

text \<open>\<open>x ?? null\<close>\<close>

fun orNull :: "'a optional \<Rightarrow> 'a optional" where
  "orNull Undefined = Null"
| "orNull Null = Null"
| "orNull (Value v) = Value v"

datatype generation = Identity | Sequence | AutoIncrement

record Column =
  col_name :: string
  dataType :: string
  col_length :: "int option"
  precisionScale :: "(int \<times> int) option"
  nullable :: bool
  col_default :: "string optional"
  generated :: "generation optional"
  collation :: "string optional"

record Index =
  idx_name :: string
  unique :: bool
  idx_columns :: "string list"
  idx_using :: "string option"

record ForeignKey =
  fk_name :: string
  fk_columns :: "string list"
  refTable :: string
  refColumns :: "string list"
  onUpdate :: "string option"
  onDelete :: "string option"

record Check =
  chk_name :: string
  expression :: string

record PrimaryKey =
  pk_name :: "string optional"
  pk_columns :: "string list"

record Table =
  tbl_name :: string
  columns :: "Column list"
  primaryKey :: "PrimaryKey option"
  indexes :: "Index list"
  checks :: "Check list"
  fks :: "ForeignKey list"

record View =
  view_name :: string
  view_definition :: string

datatype routine_kind = Function | Procedure

record Routine =
  rt_name :: string
  rt_kind :: routine_kind
  rt_language :: "string option"
  rt_definition :: string

datatype timing = Before | After

datatype event = Insert | Update | Delete

record Trigger =
  trg_name :: string
  trg_table :: string
  trg_timing :: timing
  trg_events :: "event list"
  trg_definition :: string

record SchemaModel =
  tables :: "Table list"
  views :: "View list"
  routines :: "Routine list"
  triggers :: "Trigger list"

text \<open>The string values of the enumerations, as the source writes them.\<close>

fun kindString :: "routine_kind \<Rightarrow> string" where
  "kindString Function = ''function''"
| "kindString Procedure = ''procedure''"

fun timingString :: "timing \<Rightarrow> string" where
  "timingString Before = ''before''"
| "timingString After = ''after''"

fun eventString :: "event \<Rightarrow> string" where
  "eventString Insert = ''insert''"
| "eventString Update = ''update''"
| "eventString Delete = ''delete''"

section \<open>JavaScript \<open>Map\<close> and lodash \<open>sortBy\<close>\<close>

text \<open>
  A \<open>Map\<close> keeps its keys in the order of their first insertion; \<open>set\<close> on a key that is
  present replaces the value in place. That is \<^const>\<open>AList.update\<close> on an association
  list. \<open>new Map(entries)\<close> sets the entries from left to right.
  \<open>sortBy\<close> is a stable ascending sort by the key: \<^const>\<open>sort_key\<close>.
\<close>

definition newMap :: "('k \<times> 'v) list \<Rightarrow> ('k \<times> 'v) list" where
  "newMap entries = foldl (\<lambda>m (k, v). AList.update k v m) [] entries"

definition mapHas :: "('k \<times> 'v) list \<Rightarrow> 'k \<Rightarrow> bool" where
  "mapHas m k = (map_of m k \<noteq> None)"

definition mapGet :: "('k \<times> 'v) list \<Rightarrow> 'k \<Rightarrow> 'v option" where
  "mapGet m k = map_of m k"

section \<open>The differ (\<open>diff/types.ts\<close>, \<open>diff/tableComparators.ts\<close>, \<open>diff/index.ts\<close>)\<close>

record 'a ChangeEnvelope =
  ce_name :: string
  ce_change :: 'a

record ColumnChange =
  typeChanged :: "(string \<times> string) option"
  nullableChanged :: "(bool \<times> bool) option"
  defaultChanged :: "(string optional \<times> string optional) option"
  generatedChanged :: "(generation optional \<times> generation optional) option"
  collationChanged :: "(string optional \<times> string optional) option"

record PrimaryKeyChange =
  pkc_from :: "PrimaryKey option"
  pkc_to :: "PrimaryKey option"

record 'a FromTo =
  ch_from :: 'a
  ch_to :: 'a

record TableChange =
  tc_table :: Table
  sourceTable :: Table
  addedColumns :: "Column list"
  removedColumns :: "Column list"
  columnChanges :: "ColumnChange ChangeEnvelope list"
  primaryKeyChange :: "PrimaryKeyChange option"
  addedIndexes :: "Index list"
  removedIndexes :: "Index list"
  indexChanges :: "Index FromTo ChangeEnvelope list"
  addedChecks :: "Check list"
  removedChecks :: "Check list"
  checkChanges :: "Check FromTo ChangeEnvelope list"
  addedForeignKeys :: "ForeignKey list"
  removedForeignKeys :: "ForeignKey list"
  foreignKeyChanges :: "ForeignKey FromTo ChangeEnvelope list"

record ('a, 'c) Comparison =
  added :: "'a list"
  removed :: "'a list"
  changed :: "'c list"

record DiffResult =
  d_tables :: "(Table, TableChange) Comparison"
  d_views :: "(View, string FromTo ChangeEnvelope) Comparison"
  d_routines :: "(Routine, string FromTo ChangeEnvelope) Comparison"
  d_triggers :: "(Trigger, string FromTo ChangeEnvelope) Comparison"

subsection \<open>Columns\<close>

text \<open>
  \<open>diffColumn\<close> fills one field of the change per differing attribute and returns
  \<open>null\<close> when the change object has no key.
\<close>

definition diffColumn :: "Column \<Rightarrow> Column \<Rightarrow> ColumnChange option" where
  "diffColumn source target =
     (let change =
        \<lparr> typeChanged =
            (if dataType source \<noteq> dataType target
             then Some (dataType source, dataType target) else None),
          nullableChanged =
            (if nullable source \<noteq> nullable target
             then Some (nullable source, nullable target) else None),
          defaultChanged =
            (if orNull (col_default source) \<noteq> orNull (col_default target)
             then Some (col_default source, col_default target) else None),
          generatedChanged =
            (if orNull (generated source) \<noteq> orNull (generated target)
             then Some (orNull (generated source), orNull (generated target)) else None),
          collationChanged =
            (if orNull (collation source) \<noteq> orNull (collation target)
             then Some (orNull (collation source), orNull (collation target)) else None) \<rparr>
      in if typeChanged change \<noteq> None \<or> nullableChanged change \<noteq> None
            \<or> defaultChanged change \<noteq> None \<or> generatedChanged change \<noteq> None
            \<or> collationChanged change \<noteq> None
         then Some change else None)"

definition compareColumns ::
  "Table \<Rightarrow> Table \<Rightarrow> (Column, ColumnChange ChangeEnvelope) Comparison" where
  "compareColumns source target =
     (let sourceMap = newMap (map (\<lambda>column. (col_name column, column)) (columns source));
          targetMap = newMap (map (\<lambda>column. (col_name column, column)) (columns target));
          added' = filter (\<lambda>column. \<not> mapHas sourceMap (col_name column)) (columns target);
          removed' = filter (\<lambda>column. \<not> mapHas targetMap (col_name column)) (columns source);
          changed' = List.map_filter
            (\<lambda>column.
               case mapGet targetMap (col_name column) of
                 None \<Rightarrow> None
               | Some counterpart \<Rightarrow>
                   (case diffColumn column counterpart of
                      None \<Rightarrow> None
                    | Some change \<Rightarrow> Some \<lparr> ce_name = col_name column, ce_change = change \<rparr>))
            (columns source)
      in \<lparr> added = sort_key col_name added',
           removed = sort_key col_name removed',
           changed = sort_key ce_name changed' \<rparr>)"

subsection \<open>Primary keys, indexes, checks, foreign keys\<close>

fun comparePrimaryKeys :: "PrimaryKey option \<Rightarrow> PrimaryKey option \<Rightarrow> PrimaryKeyChange option" where
  "comparePrimaryKeys None None = None"
| "comparePrimaryKeys None (Some target) = Some \<lparr> pkc_from = None, pkc_to = Some target \<rparr>"
| "comparePrimaryKeys (Some source) None = Some \<lparr> pkc_from = Some source, pkc_to = None \<rparr>"
| "comparePrimaryKeys (Some source) (Some target) =
     (if sort (pk_columns source) \<noteq> sort (pk_columns target)
      then Some \<lparr> pkc_from = Some source, pkc_to = Some target \<rparr> else None)"

definition normalizeIndex :: "Index \<Rightarrow> bool \<times> string option \<times> string list" where
  "normalizeIndex index =
     (unique index, map_option toLowerCase (idx_using index),
      sort (map toLowerCase (idx_columns index)))"

definition compareIndexes ::
  "Index list \<Rightarrow> Index list \<Rightarrow> (Index, Index FromTo ChangeEnvelope) Comparison" where
  "compareIndexes source target =
     (let sourceMap = newMap (map (\<lambda>index. (idx_name index, index)) source);
          targetMap = newMap (map (\<lambda>index. (idx_name index, index)) target);
          added' = filter (\<lambda>index. \<not> mapHas sourceMap (idx_name index)) target;
          removed' = filter (\<lambda>index. \<not> mapHas targetMap (idx_name index)) source;
          changed' = List.map_filter
            (\<lambda>index.
               case mapGet targetMap (idx_name index) of
                 None \<Rightarrow> None
               | Some targetIndex \<Rightarrow>
                   if normalizeIndex index \<noteq> normalizeIndex targetIndex
                   then Some \<lparr> ce_name = idx_name index,
                               ce_change = \<lparr> ch_from = index, ch_to = targetIndex \<rparr> \<rparr>
                   else None)
            source
      in \<lparr> added = sort_key idx_name added',
           removed = sort_key idx_name removed',
           changed = sort_key ce_name changed' \<rparr>)"

text \<open>\<open>expression.replace(/\s+/g, ' ').trim()\<close>: every run of white space becomes one space.\<close>

function collapseSpaces :: "string \<Rightarrow> string" where
  "collapseSpaces [] = []"
| "collapseSpaces (c # cs) =
     (if isSpace c then CHR 0x20 # collapseSpaces (dropWhile isSpace cs)
      else c # collapseSpaces cs)"
  by pat_completeness auto
termination
  by (relation "measure length") (auto simp: length_dropWhile_le less_Suc_eq_le)

definition normalizeExpression :: "string \<Rightarrow> string" where
  "normalizeExpression expr = trim (collapseSpaces expr)"

definition compareChecks ::
  "Check list \<Rightarrow> Check list \<Rightarrow> (Check, Check FromTo ChangeEnvelope) Comparison" where
  "compareChecks source target =
     (let sourceMap = newMap (map (\<lambda>check. (chk_name check, check)) source);
          targetMap = newMap (map (\<lambda>check. (chk_name check, check)) target);
          added' = filter (\<lambda>check. \<not> mapHas sourceMap (chk_name check)) target;
          removed' = filter (\<lambda>check. \<not> mapHas targetMap (chk_name check)) source;
          changed' = List.map_filter
            (\<lambda>check.
               case mapGet targetMap (chk_name check) of
                 None \<Rightarrow> None
               | Some targetCheck \<Rightarrow>
                   if normalizeExpression (expression check)
                        \<noteq> normalizeExpression (expression targetCheck)
                   then Some \<lparr> ce_name = chk_name check,
                               ce_change = \<lparr> ch_from = check, ch_to = targetCheck \<rparr> \<rparr>
                   else None)
            source
      in \<lparr> added = sort_key chk_name added',
           removed = sort_key chk_name removed',
           changed = sort_key ce_name changed' \<rparr>)"

definition normalizeForeignKey ::
  "ForeignKey \<Rightarrow> string list \<times> string \<times> string list \<times> string option \<times> string option" where
  "normalizeForeignKey fk =
     (sort (map toLowerCase (fk_columns fk)),
      toLowerCase (refTable fk),
      sort (map toLowerCase (refColumns fk)),
      map_option toUpperCase (onUpdate fk),
      map_option toUpperCase (onDelete fk))"

definition compareForeignKeys ::
  "ForeignKey list \<Rightarrow> ForeignKey list
     \<Rightarrow> (ForeignKey, ForeignKey FromTo ChangeEnvelope) Comparison" where
  "compareForeignKeys source target =
     (let sourceMap = newMap (map (\<lambda>fk. (fk_name fk, fk)) source);
          targetMap = newMap (map (\<lambda>fk. (fk_name fk, fk)) target);
          added' = filter (\<lambda>fk. \<not> mapHas sourceMap (fk_name fk)) target;
          removed' = filter (\<lambda>fk. \<not> mapHas targetMap (fk_name fk)) source;
          changed' = List.map_filter
            (\<lambda>fk.
               case mapGet targetMap (fk_name fk) of
                 None \<Rightarrow> None
               | Some targetFk \<Rightarrow>
                   if normalizeForeignKey fk \<noteq> normalizeForeignKey targetFk
                   then Some \<lparr> ce_name = fk_name fk,
                               ce_change = \<lparr> ch_from = fk, ch_to = targetFk \<rparr> \<rparr>
                   else None)
            source
      in \<lparr> added = sort_key fk_name added',
           removed = sort_key fk_name removed',
           changed = sort_key ce_name changed' \<rparr>)"

subsection \<open>Tables\<close>

definition diffTable :: "Table \<Rightarrow> Table \<Rightarrow> TableChange option" where
  "diffTable source target =
     (let cols = compareColumns source target;
          primaryKeyChange' = comparePrimaryKeys (primaryKey source) (primaryKey target);
          idxs = compareIndexes (indexes source) (indexes target);
          chks = compareChecks (checks source) (checks target);
          fkeys = compareForeignKeys (fks source) (fks target);
          hasChanges =
            (added cols \<noteq> [] \<or> removed cols \<noteq> [] \<or> changed cols \<noteq> []
             \<or> primaryKeyChange' \<noteq> None
             \<or> added idxs \<noteq> [] \<or> removed idxs \<noteq> [] \<or> changed idxs \<noteq> []
             \<or> added chks \<noteq> [] \<or> removed chks \<noteq> [] \<or> changed chks \<noteq> []
             \<or> added fkeys \<noteq> [] \<or> removed fkeys \<noteq> [] \<or> changed fkeys \<noteq> [])
      in if \<not> hasChanges then None
         else Some
           \<lparr> tc_table = target,
             sourceTable = source,
             addedColumns = added cols,
             removedColumns = removed cols,
             columnChanges = changed cols,
             primaryKeyChange = primaryKeyChange',
             addedIndexes = added idxs,
             removedIndexes = removed idxs,
             indexChanges = changed idxs,
             addedChecks = added chks,
             removedChecks = removed chks,
             checkChanges = changed chks,
             addedForeignKeys = added fkeys,
             removedForeignKeys = removed fkeys,
             foreignKeyChanges = changed fkeys \<rparr>)"

text \<open>
  \<open>diffTables\<close> walks the two arrays; only \<open>changed\<close> goes through \<open>sortBy\<close>, \<open>added\<close> and
  \<open>removed\<close> are returned as they were pushed.
\<close>

definition diffTables :: "Table list \<Rightarrow> Table list \<Rightarrow> (Table, TableChange) Comparison" where
  "diffTables source target =
     (let sourceMap = newMap (map (\<lambda>table. (tbl_name table, table)) source);
          targetMap = newMap (map (\<lambda>table. (tbl_name table, table)) target);
          added' = filter (\<lambda>table. \<not> mapHas sourceMap (tbl_name table)) target;
          removed' = filter (\<lambda>table. \<not> mapHas targetMap (tbl_name table)) source;
          changed' = List.map_filter
            (\<lambda>table.
               case mapGet targetMap (tbl_name table) of
                 None \<Rightarrow> None
               | Some counterpart \<Rightarrow> diffTable table counterpart)
            source
      in \<lparr> added = added',
           removed = removed',
           changed = sort_key (\<lambda>change. tbl_name (tc_table change)) changed' \<rparr>)"

subsection \<open>Views, routines, triggers\<close>

text \<open>
  \<open>diffCollection\<close> fills two maps by key (a later item replaces an earlier one of the
  same key) and walks the maps, not the arrays.
\<close>

definition diffCollection ::
  "'t list \<Rightarrow> 't list \<Rightarrow> ('t \<Rightarrow> string) \<Rightarrow> ('t \<Rightarrow> string)
     \<Rightarrow> ('t, string FromTo ChangeEnvelope) Comparison" where
  "diffCollection source target keyFn valueFn =
     (let sourceMap = foldl (\<lambda>m item. AList.update (keyFn item) item m) [] source;
          targetMap = foldl (\<lambda>m item. AList.update (keyFn item) item m) [] target;
          added' = map snd (filter (\<lambda>(key, v). \<not> mapHas sourceMap key) targetMap);
          removed' = map snd (filter (\<lambda>(key, v). \<not> mapHas targetMap key) sourceMap);
          changed' = List.map_filter
            (\<lambda>(key, v).
               case mapGet targetMap key of
                 None \<Rightarrow> None
               | Some targetValue \<Rightarrow>
                   if valueFn v \<noteq> valueFn targetValue
                   then Some \<lparr> ce_name = key,
                               ce_change = \<lparr> ch_from = valueFn v, ch_to = valueFn targetValue \<rparr> \<rparr>
                   else None)
            sourceMap
      in \<lparr> added = sort_key keyFn added',
           removed = sort_key keyFn removed',
           changed = sort_key ce_name changed' \<rparr>)"

definition routineKey :: "Routine \<Rightarrow> string" where
  "routineKey item = kindString (rt_kind item) @ '':'' @ rt_name item"

definition triggerKey :: "Trigger \<Rightarrow> string" where
  "triggerKey item = trg_table item @ ''.'' @ trg_name item"

definition triggerValue :: "Trigger \<Rightarrow> string" where
  "triggerValue item =
     join [CHR 0x0A]
       [timingString (trg_timing item),
        join '','' (map eventString (trg_events item)),
        trg_definition item]"

definition computeDiff :: "SchemaModel \<Rightarrow> SchemaModel \<Rightarrow> DiffResult" where
  "computeDiff a b =
     \<lparr> d_tables = diffTables (tables a) (tables b),
       d_views = diffCollection (views a) (views b) view_name view_definition,
       d_routines = diffCollection (routines a) (routines b) routineKey rt_definition,
       d_triggers = diffCollection (triggers a) (triggers b) triggerKey triggerValue \<rparr>"

section \<open>The DDL generators (\<open>generate/index.ts\<close>)\<close>

datatype direction = AtoB | BtoA

datatype dialect = Postgres | MariaDB

text \<open>The optional flags of \<open>GenOptions\<close> are read by truthiness: absent is \<open>False\<close>.\<close>

record GenOptions =
  direction :: direction
  withTransaction :: bool
  safeMode :: bool
  ifExists :: bool
  cascade :: bool

record Alteration =
  alt_column :: "Column option"
  alt_change :: "string list"

record TableChangePlan =
  plan_table :: Table
  desired :: Table
  addColumns :: "Column list"
  dropColumns :: "Column list"
  alterColumns :: "Alteration list"
  dropIndexes :: "Index list"
  createIndexes :: "Index list"

record TablesPlan =
  toCreate :: "Table list"
  toDrop :: "Table list"
  tablePlans :: "TableChangePlan list"

text \<open>\<open>EOL\<close> of \<open>node:os\<close> on a POSIX system.\<close>

definition EOL :: string where
  "EOL = [CHR 0x0A]"

definition quoteIdent :: "string \<Rightarrow> string" where
  "quoteIdent identifier =
     [CHR 0x22] @ replaceChar (CHR 0x22) [CHR 0x22, CHR 0x22] identifier @ [CHR 0x22]"

definition backtick :: "string \<Rightarrow> string" where
  "backtick identifier =
     [CHR 0x60] @ replaceChar (CHR 0x60) [CHR 0x60, CHR 0x60] identifier @ [CHR 0x60]"

definition quoteFor :: "dialect \<Rightarrow> string \<Rightarrow> string" where
  "quoteFor dialect identifier =
     (if dialect = Postgres then quoteIdent identifier else backtick identifier)"

text \<open>\<open>lines.push(opts.safeMode ? `-- ${drop}` : drop)\<close>\<close>

definition pushDrop :: "GenOptions \<Rightarrow> string \<Rightarrow> string" where
  "pushDrop opts statement = (if safeMode opts then ''-- '' @ statement else statement)"

subsection \<open>Planning\<close>

text \<open>
  The column a change is rendered from: \<open>desired.columns.find(...) ?? desired.columns[0]\<close>,
  which is \<open>undefined\<close> only when the desired table has no column at all.
\<close>

definition desiredColumnFor :: "Table \<Rightarrow> string \<Rightarrow> Column option" where
  "desiredColumnFor desired' name =
     (case find (\<lambda>col. col_name col = name) (columns desired') of
        Some col \<Rightarrow> Some col
      | None \<Rightarrow> (case columns desired' of [] \<Rightarrow> None | col # _ \<Rightarrow> Some col))"

definition alterStatements :: "string \<Rightarrow> ColumnChange \<Rightarrow> Column \<Rightarrow> string list" where
  "alterStatements name columnChange desiredColumn =
     (if typeChanged columnChange \<noteq> None
      then [''ALTER COLUMN '' @ quoteIdent name @ '' TYPE '' @ dataType desiredColumn,
            ''-- TODO: verify casts for '' @ name]
      else [])
     @ (if nullableChanged columnChange \<noteq> None
        then [''ALTER COLUMN '' @ quoteIdent name @ '' ''
                @ (if nullable desiredColumn then ''DROP NOT NULL'' else ''SET NOT NULL'')]
        else [])
     @ (if defaultChanged columnChange \<noteq> None
        then [''ALTER COLUMN '' @ quoteIdent name @ '' ''
                @ (case col_default desiredColumn of
                     Value def \<Rightarrow> ''SET DEFAULT '' @ def
                   | _ \<Rightarrow> ''DROP DEFAULT'')]
        else [])
     @ (if generatedChanged columnChange \<noteq> None
        then [''-- TODO: reconcile generation strategy for '' @ name]
        else [])
     @ (if collationChanged columnChange \<noteq> None
        then [''-- TODO: adjust collation for '' @ name]
        else [])"

text \<open>The function mapped over \<open>change.columnChanges\<close> in \<open>buildTablePlan\<close>.\<close>

definition alterColumn :: "Table \<Rightarrow> Table \<Rightarrow> ColumnChange ChangeEnvelope \<Rightarrow> Alteration" where
  "alterColumn desired' working ce =
     (case desiredColumnFor desired' (ce_name ce) of
        None \<Rightarrow>
          \<lparr> alt_column = find (\<lambda>col. col_name col = ce_name ce) (columns working),
            alt_change = [''-- TODO: review column '' @ ce_name ce] \<rparr>
      | Some desiredColumn \<Rightarrow>
          \<lparr> alt_column = Some desiredColumn,
            alt_change = alterStatements (ce_name ce) (ce_change ce) desiredColumn \<rparr>)"

definition buildTablePlan :: "TableChange \<Rightarrow> direction \<Rightarrow> TableChangePlan" where
  "buildTablePlan change dir =
     (let desired' = (if dir = AtoB then sourceTable change else tc_table change);
          working = (if dir = AtoB then tc_table change else sourceTable change)
      in \<lparr> plan_table = working,
           desired = desired',
           addColumns = (if dir = AtoB then removedColumns change else addedColumns change),
           dropColumns = (if dir = AtoB then addedColumns change else removedColumns change),
           alterColumns = map (alterColumn desired' working) (columnChanges change),
           dropIndexes = (if dir = AtoB then addedIndexes change else removedIndexes change),
           createIndexes = (if dir = AtoB then removedIndexes change else addedIndexes change) \<rparr>)"

definition planTables :: "DiffResult \<Rightarrow> GenOptions \<Rightarrow> TablesPlan" where
  "planTables diff opts =
     \<lparr> toCreate =
         (if direction opts = AtoB then removed (d_tables diff) else added (d_tables diff)),
       toDrop =
         (if direction opts = AtoB then added (d_tables diff) else removed (d_tables diff)),
       tablePlans = map (\<lambda>change. buildTablePlan change (direction opts)) (changed (d_tables diff)) \<rparr>"

subsection \<open>Rendering\<close>

text \<open>\<open>if (column.length)\<close>: a length of zero is falsy.\<close>

definition truthyLength :: "Column \<Rightarrow> int option" where
  "truthyLength column =
     (case col_length column of Some n \<Rightarrow> (if n = 0 then None else Some n) | None \<Rightarrow> None)"

definition typeWithSize :: "string \<Rightarrow> Column \<Rightarrow> string" where
  "typeWithSize base column =
     (case precisionScale column of
        Some (precision, scale) \<Rightarrow>
          base @ ''('' @ showInt precision @ '', '' @ showInt scale @ '')''
      | None \<Rightarrow>
          (case truthyLength column of
             Some n \<Rightarrow> base @ ''('' @ showInt n @ '')''
           | None \<Rightarrow> base))"

definition renderPostgresColumn :: "Column \<Rightarrow> string" where
  "renderPostgresColumn column =
     join '' ''
       ([quoteIdent (col_name column), typeWithSize (dataType column) column]
        @ (if \<not> nullable column then [''NOT NULL''] else [])
        @ (case col_default column of Value d \<Rightarrow> [''DEFAULT '' @ d] | _ \<Rightarrow> [])
        @ (if generated column = Value Identity \<or> generated column = Value Sequence
           then [''-- TODO: ensure generation strategy is preserved''] else [])
        @ (case collation column of
             Value c \<Rightarrow> (if c \<noteq> [] then [''COLLATE '' @ quoteIdent c] else [])
           | _ \<Rightarrow> []))"

definition renderMariaColumn :: "Column \<Rightarrow> string" where
  "renderMariaColumn column =
     join '' ''
       ([backtick (col_name column), typeWithSize (toUpperCase (dataType column)) column]
        @ (if \<not> nullable column then [''NOT NULL''] else [])
        @ (case col_default column of Value d \<Rightarrow> [''DEFAULT '' @ d] | _ \<Rightarrow> [])
        @ (if generated column = Value AutoIncrement then [''AUTO_INCREMENT''] else [])
        @ (case collation column of
             Value c \<Rightarrow> (if c \<noteq> [] then [''COLLATE '' @ c] else [])
           | _ \<Rightarrow> []))"

definition renderPostgresCreateTable :: "Table \<Rightarrow> string" where
  "renderPostgresCreateTable table =
     (let cols = map renderPostgresColumn (columns table)
          @ (case primaryKey table of
               None \<Rightarrow> []
             | Some pk \<Rightarrow>
                 [''CONSTRAINT ''
                  @ quoteIdent (case pk_name pk of Value n \<Rightarrow> n | _ \<Rightarrow> tbl_name table @ ''_pkey'')
                  @ '' PRIMARY KEY ('' @ join '', '' (map quoteIdent (pk_columns pk)) @ '')''])
      in ''CREATE TABLE '' @ quoteIdent (tbl_name table) @ '' ('' @ [CHR 0x0A] @ ''  ''
         @ join ('','' @ [CHR 0x0A] @ ''  '') cols @ [CHR 0x0A] @ '');'')"

definition renderMariaCreateTable :: "Table \<Rightarrow> string" where
  "renderMariaCreateTable table =
     (let cols = map renderMariaColumn (columns table)
          @ (case primaryKey table of
               None \<Rightarrow> []
             | Some pk \<Rightarrow>
                 [''CONSTRAINT ''
                  @ backtick (case pk_name pk of Value n \<Rightarrow> n | _ \<Rightarrow> tbl_name table @ ''_pk'')
                  @ '' PRIMARY KEY ('' @ join '', '' (map backtick (pk_columns pk)) @ '')''])
      in ''CREATE TABLE '' @ backtick (tbl_name table) @ '' ('' @ [CHR 0x0A] @ ''  ''
         @ join ('','' @ [CHR 0x0A] @ ''  '') cols @ [CHR 0x0A] @ '') ENGINE=InnoDB;'')"

definition renderPostgresIndex :: "string \<Rightarrow> Index \<Rightarrow> string" where
  "renderPostgresIndex tableName index =
     ''CREATE'' @ (if unique index then '' UNIQUE'' else []) @ '' INDEX ''
     @ quoteIdent (idx_name index) @ '' ON '' @ quoteIdent tableName
     @ (case idx_using index of
          Some u \<Rightarrow> (if u \<noteq> [] then '' USING '' @ u else [])
        | None \<Rightarrow> [])
     @ '' ('' @ join '', '' (map quoteIdent (idx_columns index)) @ '');''"

definition renderMariaIndex :: "string \<Rightarrow> Index \<Rightarrow> string" where
  "renderMariaIndex tableName index =
     ''CREATE '' @ (if unique index then ''UNIQUE '' else []) @ ''INDEX ''
     @ backtick (idx_name index) @ '' ON '' @ backtick tableName
     @ '' ('' @ join '', '' (map backtick (idx_columns index)) @ '');''"

subsection \<open>The statements of a script, in the order they are pushed\<close>

definition pgDropTable :: "GenOptions \<Rightarrow> Table \<Rightarrow> string" where
  "pgDropTable opts table =
     ''DROP TABLE'' @ (if ifExists opts then '' IF EXISTS'' else []) @ '' ''
     @ quoteIdent (tbl_name table) @ (if cascade opts then '' CASCADE'' else []) @ '';''"

definition mariaDropTable :: "GenOptions \<Rightarrow> Table \<Rightarrow> string" where
  "mariaDropTable opts table =
     ''DROP TABLE'' @ (if ifExists opts then '' IF EXISTS'' else []) @ '' ''
     @ backtick (tbl_name table) @ (if cascade opts then '' CASCADE'' else []) @ '';''"

definition pgDropColumn :: "GenOptions \<Rightarrow> string \<Rightarrow> Column \<Rightarrow> string" where
  "pgDropColumn opts tableName column =
     ''ALTER TABLE '' @ tableName @ '' DROP COLUMN '' @ quoteIdent (col_name column)
     @ (if cascade opts then '' CASCADE'' else []) @ '';''"

definition mariaDropColumn :: "string \<Rightarrow> Column \<Rightarrow> string" where
  "mariaDropColumn tableName column =
     ''ALTER TABLE '' @ tableName @ '' DROP COLUMN '' @ backtick (col_name column) @ '';''"

definition pgDropIndex :: "GenOptions \<Rightarrow> Index \<Rightarrow> string" where
  "pgDropIndex opts index =
     ''DROP INDEX'' @ (if ifExists opts then '' IF EXISTS'' else []) @ '' ''
     @ quoteIdent (idx_name index) @ '';''"

definition mariaDropIndex :: "string \<Rightarrow> Index \<Rightarrow> string" where
  "mariaDropIndex tableName index =
     ''DROP INDEX '' @ backtick (idx_name index) @ '' ON '' @ tableName @ '';''"

definition alterLines :: "string \<Rightarrow> Alteration list \<Rightarrow> string list" where
  "alterLines tableName alterations =
     concat (map (\<lambda>alteration.
                    map (\<lambda>ddl. ''ALTER TABLE '' @ tableName @ '' '' @ ddl @ '';'')
                      (alt_change alteration))
               alterations)"

definition pgPlanLines :: "GenOptions \<Rightarrow> TableChangePlan \<Rightarrow> string list" where
  "pgPlanLines opts plan =
     (let tableName = quoteIdent (tbl_name (plan_table plan))
      in map (\<lambda>column. pushDrop opts (pgDropColumn opts tableName column)) (dropColumns plan)
         @ map (\<lambda>column. ''ALTER TABLE '' @ tableName @ '' ADD COLUMN ''
                            @ renderPostgresColumn column @ '';'') (addColumns plan)
         @ alterLines tableName (alterColumns plan)
         @ map (\<lambda>index. pushDrop opts (pgDropIndex opts index)) (dropIndexes plan)
         @ map (\<lambda>index. renderPostgresIndex (tbl_name (plan_table plan)) index)
             (createIndexes plan))"

definition mariaPlanLines :: "GenOptions \<Rightarrow> TableChangePlan \<Rightarrow> string list" where
  "mariaPlanLines opts plan =
     (let tableName = backtick (tbl_name (plan_table plan))
      in map (\<lambda>column. pushDrop opts (mariaDropColumn tableName column)) (dropColumns plan)
         @ map (\<lambda>column. ''ALTER TABLE '' @ tableName @ '' ADD COLUMN ''
                            @ renderMariaColumn column @ '';'') (addColumns plan)
         @ alterLines tableName (alterColumns plan)
         @ map (\<lambda>index. pushDrop opts (mariaDropIndex tableName index)) (dropIndexes plan)
         @ map (\<lambda>index. renderMariaIndex (tbl_name (plan_table plan)) index)
             (createIndexes plan))"

definition dropView :: "GenOptions \<Rightarrow> dialect \<Rightarrow> View \<Rightarrow> string" where
  "dropView opts dialect view =
     ''DROP VIEW'' @ (if ifExists opts then '' IF EXISTS'' else []) @ '' ''
     @ quoteFor dialect (view_name view) @ (if cascade opts then '' CASCADE'' else []) @ '';''"

definition renderViewChanges :: "DiffResult \<Rightarrow> GenOptions \<Rightarrow> dialect \<Rightarrow> string list" where
  "renderViewChanges diff opts dialect =
     (let createViews =
            (if direction opts = AtoB then removed (d_views diff) else added (d_views diff));
          dropViews =
            (if direction opts = AtoB then added (d_views diff) else removed (d_views diff))
      in map (\<lambda>view. pushDrop opts (dropView opts dialect view)) dropViews
         @ map (\<lambda>view. ''CREATE OR REPLACE VIEW '' @ quoteFor dialect (view_name view)
                          @ '' AS'' @ [CHR 0x0A] @ trim (view_definition view) @ '';'')
             createViews
         @ map (\<lambda>change. ''-- TODO: view '' @ ce_name change
                            @ '' changed; consider drop and recreate.'')
             (changed (d_views diff)))"

definition dropRoutine :: "GenOptions \<Rightarrow> dialect \<Rightarrow> Routine \<Rightarrow> string" where
  "dropRoutine opts dialect routine =
     ''DROP '' @ toUpperCase (kindString (rt_kind routine))
     @ (if ifExists opts then '' IF EXISTS'' else []) @ '' ''
     @ quoteFor dialect (rt_name routine) @ '';''"

definition renderRoutineChanges :: "DiffResult \<Rightarrow> GenOptions \<Rightarrow> dialect \<Rightarrow> string list" where
  "renderRoutineChanges diff opts dialect =
     (let createRoutines =
            (if direction opts = AtoB then removed (d_routines diff) else added (d_routines diff));
          dropRoutines =
            (if direction opts = AtoB then added (d_routines diff) else removed (d_routines diff))
      in map (\<lambda>routine. pushDrop opts (dropRoutine opts dialect routine)) dropRoutines
         @ concat (map (\<lambda>routine. [''-- Routine '' @ rt_name routine,
                                    trim (rt_definition routine)])
                     createRoutines)
         @ map (\<lambda>change. ''-- TODO: routine '' @ ce_name change
                            @ '' definition changed; drop and recreate manually.'')
             (changed (d_routines diff)))"

definition dropTrigger :: "GenOptions \<Rightarrow> dialect \<Rightarrow> Trigger \<Rightarrow> string" where
  "dropTrigger opts dialect trigger =
     ''DROP TRIGGER'' @ (if ifExists opts then '' IF EXISTS'' else []) @ '' ''
     @ quoteFor dialect (trg_name trigger) @ '' ON '' @ quoteFor dialect (trg_table trigger)
     @ '';''"

definition renderTriggerChanges :: "DiffResult \<Rightarrow> GenOptions \<Rightarrow> dialect \<Rightarrow> string list" where
  "renderTriggerChanges diff opts dialect =
     (let createTriggers =
            (if direction opts = AtoB then removed (d_triggers diff) else added (d_triggers diff));
          dropTriggers =
            (if direction opts = AtoB then added (d_triggers diff) else removed (d_triggers diff))
      in map (\<lambda>trigger. pushDrop opts (dropTrigger opts dialect trigger)) dropTriggers
         @ concat (map (\<lambda>trigger. [''-- Trigger '' @ trg_name trigger @ '' on ''
                                      @ trg_table trigger,
                                    trim (trg_definition trigger)])
                     createTriggers)
         @ map (\<lambda>change. ''-- TODO: trigger '' @ ce_name change
                            @ '' changed; consider drop and recreate.'')
             (changed (d_triggers diff)))"

definition safeModeBanner :: string where
  "safeModeBanner = ''-- SAFE MODE: review drops below before executing.''"

text \<open>The array \<open>lines\<close> of \<open>toPostgres\<close> when its last statement is reached.\<close>

definition toPostgresLines :: "DiffResult \<Rightarrow> GenOptions \<Rightarrow> string list" where
  "toPostgresLines diff opts =
     (let plan = planTables diff opts
      in (if withTransaction opts then [''BEGIN;''] else [])
         @ (if safeMode opts \<and> toDrop plan \<noteq> [] then [safeModeBanner] else [])
         @ map (\<lambda>table. pushDrop opts (pgDropTable opts table)) (toDrop plan)
         @ map renderPostgresCreateTable (toCreate plan)
         @ concat (map (pgPlanLines opts) (tablePlans plan))
         @ renderViewChanges diff opts Postgres
         @ renderRoutineChanges diff opts Postgres
         @ renderTriggerChanges diff opts Postgres
         @ (if withTransaction opts then [''COMMIT;''] else []))"

definition toMariaDBLines :: "DiffResult \<Rightarrow> GenOptions \<Rightarrow> string list" where
  "toMariaDBLines diff opts =
     (let plan = planTables diff opts
      in (if withTransaction opts then [''START TRANSACTION;''] else [])
         @ (if safeMode opts \<and> toDrop plan \<noteq> [] then [safeModeBanner] else [])
         @ map (\<lambda>table. pushDrop opts (mariaDropTable opts table)) (toDrop plan)
         @ map renderMariaCreateTable (toCreate plan)
         @ concat (map (mariaPlanLines opts) (tablePlans plan))
         @ renderViewChanges diff opts MariaDB
         @ renderRoutineChanges diff opts MariaDB
         @ renderTriggerChanges diff opts MariaDB
         @ (if withTransaction opts then [''COMMIT;''] else []))"

text \<open>
  The statements that reach the script: \<open>lines.filter((line) => line.trim().length > 0)\<close>.
  The script joins them with one blank line between two statements.
\<close>

definition nonBlank :: "string \<Rightarrow> bool" where
  "nonBlank line = (trim line \<noteq> [])"

definition toPostgres :: "DiffResult \<Rightarrow> GenOptions \<Rightarrow> string" where
  "toPostgres diff opts = join (EOL @ EOL) (filter nonBlank (toPostgresLines diff opts))"

definition toMariaDB :: "DiffResult \<Rightarrow> GenOptions \<Rightarrow> string" where
  "toMariaDB diff opts = join (EOL @ EOL) (filter nonBlank (toMariaDBLines diff opts))"

section \<open>The normalizer (\<open>normalize/index.ts\<close>)\<close>

datatype case_strategy = Preserve | Lower | Upper

text \<open>
  \<open>ignore\<close> is optional and only read through \<open>ignore?.includes(value)\<close>: an absent list
  is the empty list. \<open>normalizeDefaults\<close> is read by truthiness. \<open>mapTypes\<close> is a record
  of strings, given by its entries (one entry per key, as in any object); absent is
  the empty list.
\<close>

record NameCaseOptions =
  strategy :: case_strategy
  ignore :: "string list"

record NormalizationOptions =
  nameCase :: "NameCaseOptions option"
  normalizeDefaults :: bool
  mapTypes :: "(string \<times> string) list"

definition DEFAULT_TYPE_MAPPINGS :: "(string \<times> string) list" where
  "DEFAULT_TYPE_MAPPINGS =
     [(''double precision'', ''double''),
      (''character varying'', ''varchar''),
      (''timestamp without time zone'', ''timestamp''),
      (''timestamp with time zone'', ''timestamptz''),
      (''integer'', ''int''),
      (''int4'', ''int''),
      (''int8'', ''bigint''),
      (''int2'', ''smallint''),
      (''tinyint(1)'', ''boolean''),
      (''bool'', ''boolean''),
      (''bit(1)'', ''boolean'')]"

text \<open>
  \<open>{ ...DEFAULT_TYPE_MAPPINGS, ...(options.mapTypes ?? {}) }\<close>: an entry of the
  options replaces the default entry of the same key. \<^const>\<open>map_of\<close> reads the first
  entry of a key, so the options' entries stand first. These are the own entries of
  the object; what a lookup finds at a key without an own entry is part of
  \<open>canonicalType\<close> below.
\<close>

definition typeMapper :: "NormalizationOptions \<Rightarrow> (string \<times> string) list" where
  "typeMapper options = mapTypes options @ DEFAULT_TYPE_MAPPINGS"

definition normalizeName :: "string \<Rightarrow> NormalizationOptions \<Rightarrow> string" where
  "normalizeName v options =
     (case nameCase options of
        None \<Rightarrow> v
      | Some nc \<Rightarrow>
          if v \<in> set (ignore nc) then v
          else (case strategy nc of
                  Lower \<Rightarrow> toLowerCase v
                | Upper \<Rightarrow> toUpperCase v
                | Preserve \<Rightarrow> v))"

text \<open>
  The loop of \<open>normalizeDefault\<close>: while the text starts with \<open>(\<close> and ends with \<open>)\<close>,
  take \<open>slice(1, -1).trim()\<close>, and stop when that is empty.
\<close>

lemma length_trim_le: "length (trim s) \<le> length s"
  unfolding trim_def trimEnd_def trimStart_def
  by (metis length_dropWhile_le length_rev le_trans)

function stripParens :: "string \<Rightarrow> string" where
  "stripParens normalized =
     (if prefix ''('' normalized \<and> suffix '')'' normalized
      then (let inner = trim (butlast (tl normalized))
            in if inner = [] then normalized else stripParens inner)
      else normalized)"
  by pat_completeness auto
termination
proof (relation "measure length", goal_cases)
  case 1
  show ?case by simp
next
  case (2 normalized inner)
  have "length (trim (butlast (tl normalized))) \<le> length normalized - 2"
    using length_trim_le [of "butlast (tl normalized)"] by simp
  moreover have "normalized \<noteq> []"
    using 2 by auto
  moreover have "length normalized \<noteq> 1"
    using 2 by (cases normalized) (auto simp: suffix_def)
  ultimately show ?case
    using 2 by (cases normalized) auto
qed

declare stripParens.simps [simp del]

definition normalizeDefault :: "string optional \<Rightarrow> string optional" where
  "normalizeDefault v =
     (case v of
        Value s \<Rightarrow>
          (let trimmed = trim s
           in if trimmed = [] then Value s
              else (let normalized = stripParens trimmed
                    in if toLowerCase normalized = ''now()'' then Value ''CURRENT_TIMESTAMP''
                       else Value normalized))
      | _ \<Rightarrow> v)"

text \<open>
  \<open>mapper[t.toLowerCase()] ?? t.toLowerCase()\<close>. The mapper is an object literal, so a
  lookup reads an own entry first and, at a key without one, the property of that name
  of \<open>Object.prototype\<close>. Each of these properties is a function or an object
  (\<open>mapper['constructor']\<close> is the function \<open>Object\<close>); none is nullish, so \<open>??\<close> keeps
  it and it becomes the \<open>dataType\<close> of the returned column. That value is no string and
  the model returned is no \<open>SchemaModel\<close> of \<open>types.ts\<close>: the next call of
  \<open>dataType.toLowerCase()\<close> on it, in a second normalization, throws a \<open>TypeError\<close>.
  The normalizer therefore returns a sum, with this outcome on the left.
\<close>

definition objectPrototypeKeys :: "string list" where
  "objectPrototypeKeys =
     [''constructor'', ''__defineGetter__'', ''__defineSetter__'', ''hasOwnProperty'',
      ''__lookupGetter__'', ''__lookupSetter__'', ''isPrototypeOf'',
      ''propertyIsEnumerable'', ''toString'', ''valueOf'', ''__proto__'',
      ''toLocaleString'']"

datatype normalize_error = DataTypeNotAString

definition canonicalType :: "(string \<times> string) list \<Rightarrow> string \<Rightarrow> normalize_error + string" where
  "canonicalType mapper t =
     (case map_of mapper (toLowerCase t) of
        Some canonical \<Rightarrow> Inr canonical
      | None \<Rightarrow>
          if toLowerCase t \<in> set objectPrototypeKeys then Inl DataTypeNotAString
          else Inr (toLowerCase t))"

text \<open>\<open>xs.map(f)\<close> for an \<open>f\<close> that returns a sum: the first left outcome, or all the results.\<close>

fun mapResults :: "('a \<Rightarrow> 'e + 'b) \<Rightarrow> 'a list \<Rightarrow> 'e + 'b list" where
  "mapResults f [] = Inr []"
| "mapResults f (x # xs) =
     (case f x of
        Inl e \<Rightarrow> Inl e
      | Inr y \<Rightarrow> (case mapResults f xs of Inl e \<Rightarrow> Inl e | Inr ys \<Rightarrow> Inr (y # ys)))"

definition normalizeColumn ::
  "Column \<Rightarrow> (string \<times> string) list \<Rightarrow> NormalizationOptions \<Rightarrow> normalize_error + Column" where
  "normalizeColumn column mapper options =
     (case canonicalType mapper (dataType column) of
        Inl e \<Rightarrow> Inl e
      | Inr normalizedType \<Rightarrow>
          Inr (column
                 \<lparr> col_name := normalizeName (col_name column) options,
                   dataType := normalizedType,
                   col_default :=
                     (if normalizeDefaults options then normalizeDefault (col_default column)
                      else col_default column),
                   generated := orNull (generated column),
                   collation := orNull (collation column) \<rparr>))"

definition normalizeTable ::
  "Table \<Rightarrow> (string \<times> string) list \<Rightarrow> NormalizationOptions \<Rightarrow> normalize_error + Table" where
  "normalizeTable table mapper options =
     (case mapResults (\<lambda>column. normalizeColumn column mapper options) (columns table) of
        Inl e \<Rightarrow> Inl e
      | Inr normalizedColumns \<Rightarrow>
          Inr (table
                 \<lparr> tbl_name := normalizeName (tbl_name table) options,
                   columns := normalizedColumns,
                   primaryKey :=
                     map_option
                       (\<lambda>pk. \<lparr> pk_name = orNull (pk_name pk),
                               pk_columns = map (\<lambda>col. normalizeName col options) (pk_columns pk) \<rparr>)
                       (primaryKey table),
                   indexes :=
                     map (\<lambda>index. index
                            \<lparr> idx_name := normalizeName (idx_name index) options,
                              idx_columns := map (\<lambda>col. normalizeName col options) (idx_columns index),
                              idx_using := map_option toLowerCase (idx_using index) \<rparr>)
                       (indexes table),
                   checks :=
                     map (\<lambda>check. check
                            \<lparr> chk_name := normalizeName (chk_name check) options,
                              expression := normalizeExpression (expression check) \<rparr>)
                       (checks table),
                   fks :=
                     map (\<lambda>fk. fk
                            \<lparr> fk_name := normalizeName (fk_name fk) options,
                              fk_columns := map (\<lambda>col. normalizeName col options) (fk_columns fk),
                              refTable := normalizeName (refTable fk) options,
                              refColumns := map (\<lambda>col. normalizeName col options) (refColumns fk),
                              onDelete := map_option toUpperCase (onDelete fk),
                              onUpdate := map_option toUpperCase (onUpdate fk) \<rparr>)
                       (fks table) \<rparr>))"

definition normalizeSchemaModel ::
  "SchemaModel \<Rightarrow> NormalizationOptions \<Rightarrow> normalize_error + SchemaModel" where
  "normalizeSchemaModel model options =
     (let mapper = typeMapper options
      in case mapResults (\<lambda>table. normalizeTable table mapper options) (tables model) of
           Inl e \<Rightarrow> Inl e
         | Inr normalizedTables \<Rightarrow>
             Inr (model
                    \<lparr> tables := normalizedTables,
                      views := sort_key (\<lambda>v. toLowerCase (view_name v)) (views model),
                      routines := sort_key (\<lambda>r. toLowerCase (rt_name r)) (routines model),
                      triggers :=
                        sort_key (\<lambda>t. toLowerCase (trg_table t @ ''.'' @ trg_name t))
                          (triggers model) \<rparr>))"

section \<open>The PostgreSQL loader's index rows (\<open>discovery/postgres.ts\<close>)\<close>

record IndexRow =
  tablename :: string
  indexname :: string
  indexdef :: string

text \<open>\<open>\w\<close> without the unicode flag: ASCII letters, digits and the underscore.\<close>

definition isWordChar :: "char \<Rightarrow> bool" where
  "isWordChar c =
     (let n = (of_char c :: nat)
      in (48 \<le> n \<and> n \<le> 57) \<or> (65 \<le> n \<and> n \<le> 90) \<or> n = 95 \<or> (97 \<le> n \<and> n \<le> 122))"

text \<open>
  \<open>/USING\s+(\w+)/i.exec(s)\<close>: the leftmost position where \<open>using\<close> (in any case) is
  followed by white space and then a word character; the group is the whole run of
  word characters. The two classes are disjoint, so the greedy match is the only one.
\<close>

fun usingMatch :: "string \<Rightarrow> string option" where
  "usingMatch [] = None"
| "usingMatch (c # cs) =
     (let s = c # cs; after = drop 5 s; word = dropWhile isSpace after
      in if toLowerCase (take 5 s) = ''using'' \<and> after \<noteq> [] \<and> isSpace (hd after)
            \<and> word \<noteq> [] \<and> isWordChar (hd word)
         then Some (takeWhile isWordChar word)
         else usingMatch cs)"

text \<open>
  \<open>s.match(/\((.*)\)/)\<close>: the dot stops at a line terminator, so the group runs from the
  leftmost \<open>(\<close> that has a \<open>)\<close> later on its line to the last \<open>)\<close> of that line.
\<close>

definition isLineTerminator :: "char \<Rightarrow> bool" where
  "isLineTerminator c = (c = CHR 0x0A \<or> c = CHR 0x0D)"

fun columnsMatch :: "string \<Rightarrow> string option" where
  "columnsMatch [] = None"
| "columnsMatch (c # cs) =
     (let line = takeWhile (\<lambda>x. \<not> isLineTerminator x) cs
      in if c = CHR ''('' \<and> CHR '')'' \<in> set line
         then Some (rev (tl (dropWhile (\<lambda>x. x \<noteq> CHR '')'') (rev line))))
         else columnsMatch cs)"

text \<open>\<open>s.split(c)\<close> for a single character: the empty string splits into one empty piece.\<close>

fun splitOn :: "char \<Rightarrow> string \<Rightarrow> string list" where
  "splitOn sep [] = [[]]"
| "splitOn sep (c # cs) =
     (if c = sep then [] # splitOn sep cs
      else (case splitOn sep cs of
              [] \<Rightarrow> [[c]]
            | piece # pieces \<Rightarrow> (c # piece) # pieces))"

definition parseIndex :: "IndexRow \<Rightarrow> Index" where
  "parseIndex row =
     \<lparr> idx_name = indexname row,
       unique = sublist ''UNIQUE'' (indexdef row),
       idx_columns =
         (case columnsMatch (indexdef row) of
            Some inner \<Rightarrow>
              map (\<lambda>c. replaceChar (CHR 0x22) [] (trim c)) (splitOn (CHR '','') inner)
          | None \<Rightarrow> []),
       idx_using = usingMatch (indexdef row) \<rparr>"

text \<open>
  The loop over the rows of \<open>pg_indexes\<close> in \<open>introspectTables\<close>: a row of a table that
  was not listed is passed over, every other row pushes its index onto its table.
\<close>

fun pushIndex :: "string \<Rightarrow> Index \<Rightarrow> (string \<times> Table) list \<Rightarrow> (string \<times> Table) list" where
  "pushIndex name index [] = []"
| "pushIndex name index ((k, table) # rest) =
     (if k = name then (k, table \<lparr> indexes := indexes table @ [index] \<rparr>) # rest
      else (k, table) # pushIndex name index rest)"

definition introspectIndexes ::
  "IndexRow list \<Rightarrow> (string \<times> Table) list \<Rightarrow> (string \<times> Table) list" where
  "introspectIndexes rows tablesByName =
     foldl (\<lambda>m row. if mapHas m (tablename row) then pushIndex (tablename row) (parseIndex row) m
                     else m)
       tablesByName rows"

section \<open>Concrete inputs\<close>

text \<open>The two models of the repository's generator test (\<open>generate.test.ts\<close>).\<close>

definition exId :: Column where
  "exId = \<lparr> col_name = ''id'', dataType = ''serial'', col_length = None, precisionScale = None,
            nullable = False, col_default = Undefined, generated = Value Sequence,
            collation = Undefined \<rparr>"

definition exEmail :: "int \<Rightarrow> Column" where
  "exEmail n = \<lparr> col_name = ''email'', dataType = ''varchar'', col_length = Some n,
            precisionScale = None, nullable = False, col_default = Undefined,
            generated = Undefined, collation = Undefined \<rparr>"

definition exStatus :: Column where
  "exStatus = \<lparr> col_name = ''status'', dataType = ''varchar'', col_length = Some 32,
            precisionScale = None, nullable = True, col_default = Value ''pending'',
            generated = Undefined, collation = Undefined \<rparr>"

definition exUsersA :: Table where
  "exUsersA = \<lparr> tbl_name = ''users'', columns = [exId, exEmail 255],
       primaryKey = Some \<lparr> pk_name = Value ''users_pkey'', pk_columns = [''id''] \<rparr>,
       indexes = [\<lparr> idx_name = ''users_email_key'', unique = True, idx_columns = [''email''],
                    idx_using = None \<rparr>],
       checks = [], fks = [] \<rparr>"

definition exUsersB :: Table where
  "exUsersB = \<lparr> tbl_name = ''users'', columns = [exId, exEmail 128, exStatus],
       primaryKey = Some \<lparr> pk_name = Value ''users_pkey'', pk_columns = [''id''] \<rparr>,
       indexes = [\<lparr> idx_name = ''users_email_key'', unique = False, idx_columns = [''email''],
                    idx_using = None \<rparr>,
                  \<lparr> idx_name = ''users_status_idx'', unique = False, idx_columns = [''status''],
                    idx_using = None \<rparr>],
       checks = [], fks = [] \<rparr>"

definition exModelA :: SchemaModel where
  "exModelA = \<lparr> tables = [exUsersA], views = [], routines = [], triggers = [] \<rparr>"

definition exModelB :: SchemaModel where
  "exModelB = \<lparr> tables = [exUsersB], views = [], routines = [], triggers = [] \<rparr>"

definition exSafe :: GenOptions where
  "exSafe = \<lparr> direction = AtoB, withTransaction = True, safeMode = True, ifExists = False,
              cascade = False \<rparr>"

text \<open>A table of one column, and models that hold only tables.\<close>

definition exTable :: "string \<Rightarrow> string \<Rightarrow> Table" where
  "exTable name type =
     \<lparr> tbl_name = name,
       columns = [\<lparr> col_name = ''id'', dataType = type, col_length = None,
                    precisionScale = None, nullable = False, col_default = Undefined,
                    generated = Undefined, collation = Undefined \<rparr>],
       primaryKey = None, indexes = [], checks = [], fks = [] \<rparr>"

definition exTables :: "Table list \<Rightarrow> SchemaModel" where
  "exTables ts = \<lparr> tables = ts, views = [], routines = [], triggers = [] \<rparr>"

text \<open>The change of a table whose column \<open>id\<close> goes from \<open>int\<close> to \<open>bigint\<close>.\<close>

definition exAccountsChange :: TableChange where
  "exAccountsChange =
     hd (changed (d_tables (computeDiff (exTables [exTable ''accounts'' ''int''])
                              (exTables [exTable ''accounts'' ''bigint'']))))"



definition exTrigger :: "event list \<Rightarrow> Trigger" where
  "exTrigger evs = \<lparr> trg_name = ''audit'', trg_table = ''users'', trg_timing = After,
                     trg_events = evs, trg_definition = ''EXECUTE FUNCTION log_change()'' \<rparr>"

definition exTriggers :: "Trigger list \<Rightarrow> SchemaModel" where
  "exTriggers gs = \<lparr> tables = [], views = [], routines = [], triggers = gs \<rparr>"

text \<open>A view that exists only in \<open>B\<close>.\<close>

definition exViews :: "View list \<Rightarrow> SchemaModel" where
  "exViews vs = \<lparr> tables = [], views = vs, routines = [], triggers = [] \<rparr>"

definition exActive :: View where
  "exActive = \<lparr> view_name = ''active_users_v'',
                view_definition = ''SELECT * FROM users WHERE active'' \<rparr>"


definition exNormalize :: "(string \<times> string) list \<Rightarrow> NormalizationOptions" where
  "exNormalize userTypes =
     \<lparr> nameCase = Some \<lparr> strategy = Lower, ignore = [] \<rparr>, normalizeDefaults = True,
       mapTypes = userTypes \<rparr>"


text \<open>
  The \<open>pg_indexes\<close> row of the index behind the primary key of \<open>users\<close>, and the table
  as the loader holds it when the index rows are read.
\<close>

definition exPkeyRow :: IndexRow where
  "exPkeyRow =
     \<lparr> tablename = ''users'', indexname = ''users_pkey'',
       indexdef = ''CREATE UNIQUE INDEX users_pkey ON public.users USING btree (id)'' \<rparr>"

definition exUsersLoaded :: Table where
  "exUsersLoaded =
     \<lparr> tbl_name = ''users'', columns = [exId, exEmail 255],
       primaryKey = Some \<lparr> pk_name = Value ''users_pkey'', pk_columns = [''id''] \<rparr>,
       indexes = [], checks = [], fks = [] \<rparr>"

text \<open>The lines of a script: the pieces between line feeds.\<close>

definition scriptLines :: "string \<Rightarrow> string list" where
  "scriptLines script = splitOn (CHR 0x0A) script"

section \<open>Notions used by the claims\<close>


text \<open>
  A model is string-typed for a type map when no column type, in lower case, is the
  name of a property of \<open>Object.prototype\<close> without an own entry in the map (the types
  \<open>constructor\<close> and \<open>__proto__\<close>, in any case, under the built-in map).
\<close>

definition readsInherited :: "(string \<times> string) list \<Rightarrow> string \<Rightarrow> bool" where
  "readsInherited mapper t =
     (map_of mapper (toLowerCase t) = None \<and> toLowerCase t \<in> set objectPrototypeKeys)"


text \<open>
  A text is single-spaced when its only white space is the space character and no two
  spaces are adjacent.
\<close>

fun singleSpaced :: "string \<Rightarrow> bool" where
  "singleSpaced [] = True"
| "singleSpaced [c] = (if isSpace c then c = CHR 0x20 else True)"
| "singleSpaced (c # d # r) =
     ((if isSpace c then c = CHR 0x20 \<and> \<not> isSpace d else True) \<and> singleSpaced (d # r))"

text \<open>A text is trimmed when it neither starts nor ends with white space.\<close>

definition trimmed :: "string \<Rightarrow> bool" where
  "trimmed s = (if s = [] then True else \<not> isSpace (hd s) \<and> \<not> isSpace (last s))"

section \<open>Facts about the maps of the differ\<close>

lemma map_of_foldl_update:
  "map_of (foldl (\<lambda>m (k, v). AList.update k v m) m0 es) = map_of m0 ++ map_of (rev es)"
  by (induction es arbitrary: m0) (auto simp: update_conv' map_add_def fun_eq_iff split: option.splits)

lemma map_of_newMap: "map_of (newMap es) = map_of (rev es)"
  by (simp add: newMap_def map_of_foldl_update)

lemma foldl_update_newMap:
  "foldl (\<lambda>m item. AList.update (f item) item m) [] xs = newMap (map (\<lambda>x. (f x, x)) xs)"
  by (simp add: newMap_def foldl_map)

lemma mapGet_newMap_Some:
  "mapGet (newMap (map (\<lambda>x. (f x, x)) xs)) k = Some v \<Longrightarrow> v \<in> set xs \<and> f v = k"
  by (auto simp: mapGet_def map_of_newMap rev_map[symmetric] dest!: map_of_SomeD)

lemma mapGet_newMap_distinct:
  "distinct (map f xs) \<Longrightarrow> x \<in> set xs \<Longrightarrow> mapGet (newMap (map (\<lambda>x. (f x, x)) xs)) (f x) = Some x"
proof -
  assume d: "distinct (map f xs)" and x: "x \<in> set xs"
  have "distinct (map fst (rev (map (\<lambda>x. (f x, x)) xs)))"
    using d by (metis (no_types, lifting) distinct_rev rev_map map_map comp_def fst_conv map_eq_conv)
  moreover have "(f x, x) \<in> set (rev (map (\<lambda>x. (f x, x)) xs))"
    using x by simp
  ultimately show ?thesis
    unfolding mapGet_def map_of_newMap by (rule map_of_is_SomeI)
qed

lemma distinct_foldl_update:
  "distinct (map fst m0) \<Longrightarrow> distinct (map fst (foldl (\<lambda>m (k, v). AList.update k v m) m0 es))"
  by (induction es arbitrary: m0) (auto simp: distinct_update)

lemma distinct_newMap: "distinct (map fst (newMap es))"
  by (simp add: newMap_def distinct_foldl_update)

lemma in_newMap_iff: "((k, v) \<in> set (newMap es)) = (mapGet (newMap es) k = Some v)"
  by (simp add: mapGet_def distinct_newMap)

lemma set_map_filter: "set (List.map_filter f xs) = {y. \<exists>x\<in>set xs. f x = Some y}"
  by (induction xs) (auto simp: List.map_filter_simps split: option.splits)

section \<open>Facts about the differ\<close>

lemma if_Some_eq_None: "((if P then Some x else None) = None) = (\<not> P)"
  by simp

lemma diffColumn_None_iff:
  "(diffColumn s t = None) =
     (dataType s = dataType t \<and> nullable s = nullable t
      \<and> orNull (col_default s) = orNull (col_default t)
      \<and> orNull (generated s) = orNull (generated t)
      \<and> orNull (collation s) = orNull (collation t))"
  unfolding diffColumn_def Let_def ColumnChange.simps if_Some_eq_None
  by (simp only: not_not de_Morgan_disj[symmetric] if_Some_eq_None option.simps split: if_splits) blast

lemma changed_compareColumns_names:
  "ce_name ` set (changed (compareColumns source target)) =
     {col_name c | c t. c \<in> set (columns source)
        \<and> mapGet (newMap (map (\<lambda>column. (col_name column, column)) (columns target))) (col_name c) = Some t
        \<and> diffColumn c t \<noteq> None}"
  unfolding compareColumns_def Let_def
  apply (simp add: set_map_filter)
  apply (auto simp: image_iff split: option.splits)
   apply force
  apply force
  done

lemma changed_compareColumns_both:
  assumes "ce \<in> set (changed (compareColumns source target))"
  shows "ce_name ce \<in> col_name ` set (columns source) \<and> ce_name ce \<in> col_name ` set (columns target)"
proof -
  have "ce_name ce \<in> ce_name ` set (changed (compareColumns source target))"
    using assms by (rule imageI)
  then obtain c t where c: "ce_name ce = col_name c" "c \<in> set (columns source)"
    and g: "mapGet (newMap (map (\<lambda>column. (col_name column, column)) (columns target))) (col_name c) = Some t"
    unfolding changed_compareColumns_names by blast
  from mapGet_newMap_Some[OF g] c show ?thesis by (metis imageI)
qed

lemma diffTable_Some:
  assumes "diffTable source target = Some change"
  shows "sourceTable change = source" "tc_table change = target"
    "columnChanges change = changed (compareColumns source target)"
  using assms unfolding diffTable_def Let_def by (auto split: if_splits)

lemma changed_diffTables:
  assumes "change \<in> set (changed (diffTables source target))"
  shows "\<exists>table counterpart. table \<in> set source \<and> counterpart \<in> set target
           \<and> tbl_name counterpart = tbl_name table
           \<and> diffTable table counterpart = Some change"
proof -
  from assms obtain table where t: "table \<in> set source"
    and f: "(case mapGet (newMap (map (\<lambda>table. (tbl_name table, table)) target)) (tbl_name table) of
               None \<Rightarrow> None | Some counterpart \<Rightarrow> diffTable table counterpart) = Some change"
    unfolding diffTables_def Let_def by (auto simp: set_map_filter)
  from f obtain counterpart where
    g: "mapGet (newMap (map (\<lambda>table. (tbl_name table, table)) target)) (tbl_name table) = Some counterpart"
    and d: "diffTable table counterpart = Some change"
    by (auto split: option.splits)
  from mapGet_newMap_Some[OF g] t d show ?thesis by blast
qed

lemma changed_diffCollection_names:
  "ce_name ` set (changed (diffCollection source target keyFn valueFn)) =
     {k | k v w. mapGet (newMap (map (\<lambda>x. (keyFn x, x)) source)) k = Some v
        \<and> mapGet (newMap (map (\<lambda>x. (keyFn x, x)) target)) k = Some w
        \<and> valueFn v \<noteq> valueFn w}"
proof -
  define SM where "SM = newMap (map (\<lambda>x. (keyFn x, x)) source)"
  define TM where "TM = newMap (map (\<lambda>x. (keyFn x, x)) target)"
  define g where "g = (\<lambda>(key, v).
               case mapGet TM key of
                 None \<Rightarrow> None
               | Some targetValue \<Rightarrow>
                   if valueFn v \<noteq> valueFn targetValue
                   then Some \<lparr> ce_name = key,
                               ce_change = \<lparr> ch_from = valueFn v, ch_to = valueFn targetValue \<rparr> \<rparr>
                   else None)"
  have g_Some: "(g (k, v) = Some y) =
      (\<exists>w. mapGet TM k = Some w \<and> valueFn v \<noteq> valueFn w
          \<and> y = \<lparr> ce_name = k, ce_change = \<lparr> ch_from = valueFn v, ch_to = valueFn w \<rparr> \<rparr>)" for k v y
    unfolding g_def by (cases "mapGet TM k") auto
  have ch: "changed (diffCollection source target keyFn valueFn) = sort_key ce_name (List.map_filter g SM)"
    unfolding diffCollection_def Let_def foldl_update_newMap SM_def TM_def g_def by simp
  have "ce_name ` set (changed (diffCollection source target keyFn valueFn)) =
     {k | k v w. (k, v) \<in> set SM \<and> mapGet TM k = Some w \<and> valueFn v \<noteq> valueFn w}"
  proof (rule set_eqI, rule iffI)
    fix k assume "k \<in> ce_name ` set (changed (diffCollection source target keyFn valueFn))"
    then obtain y where y: "y \<in> set (List.map_filter g SM)" and k: "k = ce_name y"
      unfolding ch by auto
    from y obtain x where x: "x \<in> set SM" and gx: "g x = Some y"
      by (auto simp: set_map_filter)
    obtain k' v where xx: "x = (k', v)" by (cases x)
    from gx[unfolded xx g_Some] obtain w where
      "mapGet TM k' = Some w" "valueFn v \<noteq> valueFn w" "ce_name y = k'" by auto
    with x xx k show "k \<in> {k | k v w. (k, v) \<in> set SM \<and> mapGet TM k = Some w \<and> valueFn v \<noteq> valueFn w}"
      by blast
  next
    fix k assume "k \<in> {k | k v w. (k, v) \<in> set SM \<and> mapGet TM k = Some w \<and> valueFn v \<noteq> valueFn w}"
    then obtain v w where m: "(k, v) \<in> set SM" "mapGet TM k = Some w" "valueFn v \<noteq> valueFn w"
      by blast
    then have "g (k, v) = Some \<lparr> ce_name = k, ce_change = \<lparr> ch_from = valueFn v, ch_to = valueFn w \<rparr> \<rparr>"
      unfolding g_Some by blast
    with m(1) have "\<lparr> ce_name = k, ce_change = \<lparr> ch_from = valueFn v, ch_to = valueFn w \<rparr> \<rparr>
        \<in> set (List.map_filter g SM)"
      unfolding set_map_filter by blast
    then have "ce_name \<lparr> ce_name = k, ce_change = \<lparr> ch_from = valueFn v, ch_to = valueFn w \<rparr> \<rparr>
        \<in> ce_name ` set (changed (diffCollection source target keyFn valueFn))"
      unfolding ch by (intro imageI) simp
    then show "k \<in> ce_name ` set (changed (diffCollection source target keyFn valueFn))"
      by simp
  qed
  then show ?thesis unfolding SM_def TM_def by (simp only: in_newMap_iff)
qed

section \<open>Facts about the value of a trigger\<close>

lemma eventString_nonempty: "eventString e \<noteq> []"
  by (cases e) simp_all

lemma LF_notin_eventString: "CHR 0x0A \<notin> set (eventString e)"
  by (cases e) simp_all

lemma join_events_Cons:
  "join '','' (map eventString (e # es)) = eventString e @ concat (map (\<lambda>x. CHR '','' # eventString x) es)"
  by (induction es arbitrary: e) simp_all

lemma LF_notin_events: "CHR 0x0A \<notin> set (join '','' (map eventString es))"
proof (cases es)
  case (Cons e r)
  have "CHR 0x0A \<notin> set (concat (map (\<lambda>x. CHR '','' # eventString x) r))"
    by (induction r) (simp_all add: LF_notin_eventString)
  then show ?thesis unfolding Cons join_events_Cons by (simp add: LF_notin_eventString)
qed simp

lemma timingString_append_inj:
  "timingString x @ u = timingString y @ v \<Longrightarrow> x = y \<and> u = v"
  by (cases x; cases y) simp_all

lemma eventString_append_inj:
  "eventString x @ u = eventString y @ v \<Longrightarrow> x = y \<and> u = v"
  by (cases x; cases y) simp_all

lemma tail_events_inj:
  "concat (map (\<lambda>x. CHR '','' # eventString x) es) = concat (map (\<lambda>x. CHR '','' # eventString x) es')
     \<Longrightarrow> es = es'"
proof (induction es arbitrary: es')
  case Nil then show ?case by (cases es') simp_all
next
  case (Cons e es)
  then obtain e' es'' where es': "es' = e' # es''" by (cases es') simp_all
  from Cons.prems es' have "eventString e @ concat (map (\<lambda>x. CHR '','' # eventString x) es)
      = eventString e' @ concat (map (\<lambda>x. CHR '','' # eventString x) es'')" by simp
  from eventString_append_inj[OF this] Cons.IH[of es''] es' show ?case by simp
qed

lemma join_events_inj:
  "(join '','' (map eventString es) = join '','' (map eventString es')) = (es = es')"
proof
  assume a: "join '','' (map eventString es) = join '','' (map eventString es')"
  show "es = es'"
  proof (cases es)
    case Nil
    show ?thesis
    proof (cases es')
      case (Cons e' r')
      from a Nil Cons have "join '','' (map eventString (e' # r')) = []"
        by simp
      then have "eventString e' @ concat (map (\<lambda>x. CHR '','' # eventString x) r') = []"
        unfolding join_events_Cons .
      then show ?thesis using eventString_nonempty[of e'] by simp
    qed (simp add: Nil)
  next
    case (Cons e r)
    show ?thesis
    proof (cases es')
      case Nil
      from a Nil Cons have "join '','' (map eventString (e # r)) = []"
        by simp
      then have "eventString e @ concat (map (\<lambda>x. CHR '','' # eventString x) r) = []"
        unfolding join_events_Cons .
      then show ?thesis using eventString_nonempty[of e] by simp
    next
      case c: (Cons e' r')
      from a Cons c have "join '','' (map eventString (e # r)) = join '','' (map eventString (e' # r'))"
        by simp
      then have "eventString e @ concat (map (\<lambda>x. CHR '','' # eventString x) r)
         = eventString e' @ concat (map (\<lambda>x. CHR '','' # eventString x) r')"
        unfolding join_events_Cons .
      from eventString_append_inj[OF this] have "e = e'"
        and "concat (map (\<lambda>x. CHR '','' # eventString x) r) = concat (map (\<lambda>x. CHR '','' # eventString x) r')"
        by simp_all
      with tail_events_inj[of r r'] have "e = e'" "r = r'" by simp_all
      with Cons c show ?thesis by simp
    qed
  qed
qed simp

lemma split_at_first:
  "x \<notin> set xs \<Longrightarrow> x \<notin> set xs' \<Longrightarrow> xs @ x # ys = xs' @ x # ys'
     \<Longrightarrow> xs = xs' \<and> ys = ys'"
proof (induction xs arbitrary: xs')
  case Nil
  then show ?case by (cases xs') auto
next
  case (Cons a as)
  show ?case
  proof (cases xs')
    case Nil
    with Cons.prems show ?thesis by auto
  next
    case c: (Cons b bs)
    with Cons.prems have "a = b" "as @ x # ys = bs @ x # ys'" "x \<notin> set as" "x \<notin> set bs"
      by auto
    with Cons.IH[of bs] c show ?thesis by simp
  qed
qed

lemma triggerValue_eq_iff:
  "(triggerValue s = triggerValue t) =
     (trg_timing s = trg_timing t
      \<and> join '','' (map eventString (trg_events s)) = join '','' (map eventString (trg_events t))
      \<and> trg_definition s = trg_definition t)"
proof
  assume "triggerValue s = triggerValue t"
  then have e: "timingString (trg_timing s) @ (CHR 0x0A # join '','' (map eventString (trg_events s)) @ CHR 0x0A # trg_definition s)
      = timingString (trg_timing t) @ (CHR 0x0A # join '','' (map eventString (trg_events t)) @ CHR 0x0A # trg_definition t)"
    by (simp add: triggerValue_def)
  from timingString_append_inj[OF e] have t: "trg_timing s = trg_timing t"
    and r: "join '','' (map eventString (trg_events s)) @ CHR 0x0A # trg_definition s
          = join '','' (map eventString (trg_events t)) @ CHR 0x0A # trg_definition t"
    by simp_all
  from r have "join '','' (map eventString (trg_events s)) = join '','' (map eventString (trg_events t))
      \<and> trg_definition s = trg_definition t"
    by (rule split_at_first[OF LF_notin_events LF_notin_events])
  with t show "trg_timing s = trg_timing t
      \<and> join '','' (map eventString (trg_events s)) = join '','' (map eventString (trg_events t))
      \<and> trg_definition s = trg_definition t" by blast
next
  assume "trg_timing s = trg_timing t
      \<and> join '','' (map eventString (trg_events s)) = join '','' (map eventString (trg_events t))
      \<and> trg_definition s = trg_definition t"
  then show "triggerValue s = triggerValue t" by (simp add: triggerValue_def)
qed

section \<open>Facts about the statements of a script\<close>

lemma nonBlank_Cons: "\<not> isSpace c \<Longrightarrow> nonBlank (c # s)"
  by (simp add: nonBlank_def trim_def trimEnd_def trimStart_def dropWhile_append dropWhile_eq_Nil_conv)

lemma nonBlank_pushDrop: "nonBlank statement \<Longrightarrow> nonBlank (pushDrop opts statement)"
  by (simp add: pushDrop_def nonBlank_Cons isSpace_def)

lemma nonBlank_statements:
  "nonBlank (pgDropTable opts t)" "nonBlank (mariaDropTable opts t)"
  "nonBlank (renderPostgresCreateTable t)" "nonBlank (renderMariaCreateTable t)"
  "nonBlank (pgDropColumn opts n c)" "nonBlank (mariaDropColumn n c)"
  "nonBlank (pgDropIndex opts i)" "nonBlank (mariaDropIndex n i)"
  "nonBlank (renderPostgresIndex n i)" "nonBlank (renderMariaIndex n i)"
  "nonBlank (''ALTER TABLE '' @ rest)"
  "nonBlank (dropView opts d v)" "nonBlank (dropRoutine opts d r)" "nonBlank (dropTrigger opts d g)"
  "nonBlank ''BEGIN;''" "nonBlank ''START TRANSACTION;''" "nonBlank safeModeBanner"
  by (simp_all add: pgDropTable_def mariaDropTable_def renderPostgresCreateTable_def
      renderMariaCreateTable_def pgDropColumn_def mariaDropColumn_def pgDropIndex_def
      mariaDropIndex_def renderPostgresIndex_def renderMariaIndex_def dropView_def
      dropRoutine_def dropTrigger_def safeModeBanner_def Let_def nonBlank_Cons isSpace_def)






lemma buildTablePlan_simps:
  "dropColumns (buildTablePlan ch dir) = (if dir = AtoB then addedColumns ch else removedColumns ch)"
  "addColumns (buildTablePlan ch dir) = (if dir = AtoB then removedColumns ch else addedColumns ch)"
  "dropIndexes (buildTablePlan ch dir) = (if dir = AtoB then addedIndexes ch else removedIndexes ch)"
  "createIndexes (buildTablePlan ch dir) = (if dir = AtoB then removedIndexes ch else addedIndexes ch)"
  "desired (buildTablePlan ch dir) = (if dir = AtoB then sourceTable ch else tc_table ch)"
  "plan_table (buildTablePlan ch dir) = (if dir = AtoB then tc_table ch else sourceTable ch)"
  "alterColumns (buildTablePlan ch dir)
     = map (alterColumn (desired (buildTablePlan ch dir)) (plan_table (buildTablePlan ch dir)))
         (columnChanges ch)"
  by (simp_all add: buildTablePlan_def Let_def)










lemma find_name_Some:
  "n \<in> col_name ` set cs \<Longrightarrow> \<exists>col. find (\<lambda>c. col_name c = n) cs = Some col \<and> col_name col = n"
  by (induction cs) auto

lemma join_Cons_nonempty: "ys \<noteq> [] \<Longrightarrow> join sep (x # ys) = x @ sep @ join sep ys"
  by (cases ys) simp_all

lemma banner_first_pg:
  assumes "safeMode opts" and "toDrop (planTables diff opts) \<noteq> []"
  shows "\<exists>rest. filter nonBlank (toPostgresLines diff opts)
           = (if withTransaction opts then [''BEGIN;''] else []) @ safeModeBanner # rest \<and> rest \<noteq> []"
proof -
  from assms(2) obtain t ts where tt: "toDrop (planTables diff opts) = t # ts"
    by (cases "toDrop (planTables diff opts)") simp_all
  show ?thesis
    unfolding toPostgresLines_def Let_def tt
    using assms(1)
    by (simp add: nonBlank_statements nonBlank_pushDrop)
qed

lemma banner_first_maria:
  assumes "safeMode opts" and "toDrop (planTables diff opts) \<noteq> []"
  shows "\<exists>rest. filter nonBlank (toMariaDBLines diff opts)
           = (if withTransaction opts then [''START TRANSACTION;''] else []) @ safeModeBanner # rest \<and> rest \<noteq> []"
proof -
  from assms(2) obtain t ts where tt: "toDrop (planTables diff opts) = t # ts"
    by (cases "toDrop (planTables diff opts)") simp_all
  show ?thesis
    unfolding toMariaDBLines_def Let_def tt
    using assms(1)
    by (simp add: nonBlank_statements nonBlank_pushDrop)
qed

lemma prefix_join_banner:
  "rest \<noteq> [] \<Longrightarrow> lines = (if tx then [opener] else []) @ banner # rest \<Longrightarrow>
     prefix ((if tx then opener @ sep else []) @ banner @ sep) (join sep lines)"
  by (cases tx) (simp_all add: join_Cons_nonempty)

lemma prefix_DROP_comment [simp]: "\<not> prefix ''DROP '' (''-- '' @ s)"
  by simp









section \<open>Facts about the normalizer\<close>

lemma lowerChar_idem: "lowerChar (lowerChar c) = lowerChar c"
  by (simp add: lowerChar_def)

lemma upperChar_idem: "upperChar (upperChar c) = upperChar c"
proof (cases "97 \<le> (of_char c :: nat) \<and> (of_char c :: nat) \<le> 122")
  case True
  then have u: "upperChar c = char_of ((of_char c :: nat) - 32)"
    by (simp add: upperChar_def)
  from True have "(of_char c :: nat) - 32 < 256"
    by linarith
  then have m: "(of_char (char_of ((of_char c :: nat) - 32)) :: nat) = of_char c - 32"
    by simp
  from True have "\<not> (97 \<le> (of_char c :: nat) - 32)"
    by linarith
  then have "upperChar (char_of ((of_char c :: nat) - 32)) = char_of ((of_char c :: nat) - 32)"
    unfolding upperChar_def m by simp
  then show ?thesis unfolding u .
next
  case False
  then have "upperChar c = c" by (auto simp: upperChar_def)
  then show ?thesis by simp
qed

lemma toLowerCase_idem [simp]: "toLowerCase (toLowerCase s) = toLowerCase s"
  by (simp add: toLowerCase_def lowerChar_idem)

lemma toUpperCase_idem [simp]: "toUpperCase (toUpperCase s) = toUpperCase s"
  by (simp add: toUpperCase_def upperChar_idem)

lemma normalizeName_idem [simp]:
  "normalizeName (normalizeName v options) options = normalizeName v options"
  by (simp add: normalizeName_def split: option.splits case_strategy.splits)

lemma trimEnd_prefix: "\<exists>r. s = trimEnd s @ r"
proof -
  have "rev s = takeWhile isSpace (rev s) @ dropWhile isSpace (rev s)"
    by simp
  then have "s = rev (dropWhile isSpace (rev s)) @ rev (takeWhile isSpace (rev s))"
    by (metis rev_append rev_rev_ident)
  then show ?thesis unfolding trimEnd_def by blast
qed

lemma trimmed_trim: "trimmed (trim s)"
proof (cases "trim s = []")
  case True
  then show ?thesis by (simp add: trimmed_def)
next
  case False
  let ?t = "trimStart s"
  from False have ne: "trimEnd ?t \<noteq> []" by (simp add: trim_def)
  obtain r where r: "?t = trimEnd ?t @ r" using trimEnd_prefix by blast
  then have "?t \<noteq> []" using ne by auto
  then have "\<not> isSpace (hd ?t)"
    unfolding trimStart_def by (rule hd_dropWhile)
  moreover have "hd ?t = hd (trimEnd ?t)"
    using r ne by (metis hd_append2)
  ultimately have h: "\<not> isSpace (hd (trim s))" by (simp add: trim_def)
  have "dropWhile isSpace (rev ?t) \<noteq> []"
    using ne by (simp add: trimEnd_def)
  then have "\<not> isSpace (hd (dropWhile isSpace (rev ?t)))"
    by (rule hd_dropWhile)
  then have "\<not> isSpace (last (trimEnd ?t))"
    using ne by (simp add: trimEnd_def last_rev)
  then have l: "\<not> isSpace (last (trim s))" by (simp add: trim_def)
  from h l False show ?thesis by (simp add: trimmed_def)
qed

lemma trim_trimmed_id: "trimmed s \<Longrightarrow> trim s = s"
proof (cases s)
  case Nil
  then show ?thesis by (simp add: trim_def trimEnd_def trimStart_def)
next
  case (Cons c cs)
  assume "trimmed s"
  with Cons have h: "\<not> isSpace c" and l: "\<not> isSpace (last s)"
    by (simp_all add: trimmed_def)
  from h Cons have 1: "trimStart s = s" by (simp add: trimStart_def)
  from l have "\<not> isSpace (hd (rev s))" by (simp add: hd_rev)
  moreover have "rev s \<noteq> []" using Cons by simp
  ultimately have "dropWhile isSpace (rev s) = rev s"
    by (cases "rev s") simp_all
  then have 2: "trimEnd s = s" by (simp add: trimEnd_def)
  from 1 2 show ?thesis by (simp add: trim_def)
qed

lemma trim_idem [simp]: "trim (trim s) = trim s"
  by (rule trim_trimmed_id[OF trimmed_trim])

lemma stripParens_unfold_inner:
  "prefix ''('' s \<Longrightarrow> suffix '')'' s \<Longrightarrow> trim (butlast (tl s)) \<noteq> []
     \<Longrightarrow> stripParens s = stripParens (trim (butlast (tl s)))"
  by (subst stripParens.simps) (simp add: Let_def)

lemma stripParens_unfold_stop:
  "\<not> (prefix ''('' s \<and> suffix '')'' s \<and> trim (butlast (tl s)) \<noteq> []) \<Longrightarrow> stripParens s = s"
  by (subst stripParens.simps) (auto simp: Let_def)

lemma stripParens_idem: "stripParens (stripParens s) = stripParens s"
proof (induction s rule: stripParens.induct)
  case (1 s)
  show ?case
  proof (cases "prefix ''('' s \<and> suffix '')'' s \<and> trim (butlast (tl s)) \<noteq> []")
    case True
    then have "stripParens s = stripParens (trim (butlast (tl s)))"
      by (simp add: stripParens_unfold_inner)
    with 1 True show ?thesis by simp
  next
    case False
    then have "stripParens s = s" by (rule stripParens_unfold_stop)
    then show ?thesis by simp
  qed
qed

lemma stripParens_trimmed:
  "trimmed s \<Longrightarrow> s \<noteq> [] \<Longrightarrow> trimmed (stripParens s) \<and> stripParens s \<noteq> []"
proof (induction s rule: stripParens.induct)
  case (1 s)
  show ?case
  proof (cases "prefix ''('' s \<and> suffix '')'' s \<and> trim (butlast (tl s)) \<noteq> []")
    case True
    then have "stripParens s = stripParens (trim (butlast (tl s)))"
      by (simp add: stripParens_unfold_inner)
    with 1 True trimmed_trim[of "butlast (tl s)"] show ?thesis by simp
  next
    case False
    then have "stripParens s = s" by (rule stripParens_unfold_stop)
    with 1 show ?thesis by simp
  qed
qed

lemma normalizeDefault_idem [simp]: "normalizeDefault (normalizeDefault v) = normalizeDefault v"
proof (cases v)
  case (Value s)
  show ?thesis
  proof (cases "trim s = []")
    case True
    with Value show ?thesis by (simp add: normalizeDefault_def)
  next
    case False
    let ?n = "stripParens (trim s)"
    from stripParens_trimmed[OF trimmed_trim False] have t: "trimmed ?n" and ne: "?n \<noteq> []"
      by simp_all
    show ?thesis
    proof (cases "toLowerCase ?n = ''now()''")
      case True
      have c: "trim ''CURRENT_TIMESTAMP'' = ''CURRENT_TIMESTAMP''"
        by (rule trim_trimmed_id) (simp add: trimmed_def isSpace_def)
      have d: "stripParens ''CURRENT_TIMESTAMP'' = ''CURRENT_TIMESTAMP''"
        by (rule stripParens_unfold_stop) simp
      have e: "toLowerCase ''CURRENT_TIMESTAMP'' \<noteq> ''now()''"
        by (simp add: toLowerCase_def)
      from Value False True c d e show ?thesis
        by (simp add: normalizeDefault_def Let_def)
    next
      case f: False
      from Value False f t ne show ?thesis
        by (simp add: normalizeDefault_def Let_def trim_trimmed_id stripParens_idem)
    qed
  qed
qed (simp_all add: normalizeDefault_def)

lemma collapseSpaces_hd:
  "s \<noteq> [] \<Longrightarrow> \<not> isSpace (hd s) \<Longrightarrow> collapseSpaces s \<noteq> [] \<and> hd (collapseSpaces s) = hd s"
  by (cases s) simp_all

lemma singleSpaced_Cons_space:
  "singleSpaced r \<Longrightarrow> (r = [] \<or> \<not> isSpace (hd r)) \<Longrightarrow> singleSpaced (CHR 0x20 # r)"
  by (cases r) (simp_all add: isSpace_def)

lemma singleSpaced_Cons_other:
  "singleSpaced r \<Longrightarrow> \<not> isSpace c \<Longrightarrow> singleSpaced (c # r)"
  by (cases r) simp_all

lemma singleSpaced_collapseSpaces: "singleSpaced (collapseSpaces s)"
proof (induction s rule: collapseSpaces.induct)
  case 1
  show ?case by simp
next
  case (2 c cs)
  show ?case
  proof (cases "isSpace c")
    case True
    let ?d = "dropWhile isSpace cs"
    from 2 True have ih: "singleSpaced (collapseSpaces ?d)" by simp
    have "collapseSpaces ?d = [] \<or> \<not> isSpace (hd (collapseSpaces ?d))"
    proof (cases "?d = []")
      case e: True
      show ?thesis unfolding e by simp
    next
      case False
      then have "\<not> isSpace (hd ?d)" by (rule hd_dropWhile)
      with False collapseSpaces_hd[of ?d] show ?thesis by simp
    qed
    with ih have "singleSpaced (CHR 0x20 # collapseSpaces ?d)"
      by (rule singleSpaced_Cons_space)
    with True show ?thesis by simp
  next
    case False
    with 2 have "singleSpaced (collapseSpaces cs)" by simp
    then have "singleSpaced (c # collapseSpaces cs)"
      using False by (rule singleSpaced_Cons_other)
    with False show ?thesis by simp
  qed
qed

lemma collapseSpaces_singleSpaced_id: "singleSpaced s \<Longrightarrow> collapseSpaces s = s"
proof (induction s rule: singleSpaced.induct)
  case 1
  show ?case by simp
next
  case (2 c)
  then show ?case by (simp split: if_splits)
next
  case (3 c d r)
  from "3.prems" have s: "singleSpaced (d # r)" by simp
  with "3.IH" have ih: "collapseSpaces (d # r) = d # r" by simp
  show ?case
  proof (cases "isSpace c")
    case True
    with "3.prems" have "c = CHR 0x20" "\<not> isSpace d" by simp_all
    with True ih show ?thesis by simp
  next
    case False
    with ih show ?thesis by simp
  qed
qed

lemma singleSpaced_append_right: "singleSpaced (xs @ ys) \<Longrightarrow> singleSpaced ys"
proof (induction xs)
  case Nil
  then show ?case by simp
next
  case (Cons x xs)
  then show ?case by (cases "xs @ ys") (simp_all split: if_splits)
qed

lemma singleSpaced_append_left: "singleSpaced (xs @ ys) \<Longrightarrow> singleSpaced xs"
proof (induction xs rule: singleSpaced.induct)
  case 1
  show ?case by simp
next
  case (2 c)
  then show ?case by (cases ys) (simp_all split: if_splits)
next
  case (3 c d r)
  then show ?case by (simp split: if_splits)
qed

lemma trimStart_suffix: "\<exists>l. s = l @ trimStart s"
  unfolding trimStart_def by (metis takeWhile_dropWhile_id)

lemma singleSpaced_trim: "singleSpaced s \<Longrightarrow> singleSpaced (trim s)"
proof -
  assume a: "singleSpaced s"
  obtain l where l: "s = l @ trimStart s" using trimStart_suffix by blast
  obtain r where r: "trimStart s = trimEnd (trimStart s) @ r" using trimEnd_prefix by blast
  from a l have "singleSpaced (trimStart s)" by (metis singleSpaced_append_right)
  with r have "singleSpaced (trimEnd (trimStart s))" by (metis singleSpaced_append_left)
  then show ?thesis by (simp add: trim_def)
qed

lemma normalizeExpression_idem [simp]:
  "normalizeExpression (normalizeExpression e) = normalizeExpression e"
proof -
  have "singleSpaced (trim (collapseSpaces e))"
    by (rule singleSpaced_trim[OF singleSpaced_collapseSpaces])
  then have "collapseSpaces (trim (collapseSpaces e)) = trim (collapseSpaces e)"
    by (rule collapseSpaces_singleSpaced_id)
  then show ?thesis by (simp add: normalizeExpression_def)
qed




lemma canonicalType_inherited:
  "readsInherited mapper t \<Longrightarrow> canonicalType mapper t = Inl DataTypeNotAString"
  by (simp add: canonicalType_def readsInherited_def)

lemma orNull_idem [simp]: "orNull (orNull x) = orNull x"
  by (cases x) simp_all






lemma map_idem: "(\<And>x. f (f x) = f x) \<Longrightarrow> map f (map f xs) = map f xs"
  by simp

lemma map_option_idem: "(\<And>x. f (f x) = f x) \<Longrightarrow> map_option f (map_option f y) = map_option f y"
  by (cases y) simp_all






text \<open>
  A column whose type is \<open>Constructor\<close>: the lookup of \<open>constructor\<close> in the built-in map
  finds the function \<open>Object\<close>, and the model returned holds it as the column's type.
\<close>

lemma normalize_inherited_key:
  "normalizeSchemaModel (exTables [exTable ''t'' ''Constructor'']) (exNormalize [])
     = Inl DataTypeNotAString"
  by code_simp

section \<open>Claims\<close>








text \<open>
  C4. \<open>computeDiff\<close> is direction-symmetric. For any two models and each of the four
  buckets (tables by name, views by name, routines by \<open>kind:name\<close>, triggers by
  \<open>table.name\<close>), the keys of the objects added from \<open>a\<close> to \<open>b\<close> are the keys of
  the objects removed from \<open>b\<close> to \<open>a\<close>, and the keys removed from \<open>a\<close> to \<open>b\<close> are
  the keys added from \<open>b\<close> to \<open>a\<close>.
\<close>

theorem computeDiff_direction_symmetric:
  "tbl_name ` set (added (d_tables (computeDiff a b))) = tbl_name ` set (removed (d_tables (computeDiff b a)))
   \<and> tbl_name ` set (removed (d_tables (computeDiff a b))) = tbl_name ` set (added (d_tables (computeDiff b a)))
   \<and> view_name ` set (added (d_views (computeDiff a b))) = view_name ` set (removed (d_views (computeDiff b a)))
   \<and> view_name ` set (removed (d_views (computeDiff a b))) = view_name ` set (added (d_views (computeDiff b a)))
   \<and> routineKey ` set (added (d_routines (computeDiff a b))) = routineKey ` set (removed (d_routines (computeDiff b a)))
   \<and> routineKey ` set (removed (d_routines (computeDiff a b))) = routineKey ` set (added (d_routines (computeDiff b a)))
   \<and> triggerKey ` set (added (d_triggers (computeDiff a b))) = triggerKey ` set (removed (d_triggers (computeDiff b a)))
   \<and> triggerKey ` set (removed (d_triggers (computeDiff a b))) = triggerKey ` set (added (d_triggers (computeDiff b a)))"
  by (simp add: computeDiff_def diffTables_def diffCollection_def Let_def)

text \<open>
  C5. Every \<open>added\<close>, \<open>removed\<close> and \<open>changed\<close> list of a diff is sorted by its key.
  \<open>diffTables\<close> sorts only \<open>changed\<close>: between a model without tables and a model
  with the tables \<open>zeta\<close> and \<open>alpha\<close>, in that order, \<open>tables.added\<close> (and, the other
  way round, \<open>tables.removed\<close>) keeps the order of the input, which is not sorted.
\<close>

theorem diffTables_added_not_sorted:
  "map tbl_name (added (d_tables (computeDiff (exTables []) (exTables [exTable ''zeta'' ''int'', exTable ''alpha'' ''int'']))))
     = [''zeta'', ''alpha'']
   \<and> \<not> sorted [''zeta'', ''alpha'']
   \<and> map tbl_name (removed (d_tables (computeDiff (exTables [exTable ''zeta'' ''int'', exTable ''alpha'' ''int'']) (exTables []))))
     = [''zeta'', ''alpha'']"
  by (simp add: computeDiff_def diffTables_def exTables_def exTable_def newMap_def mapHas_def)

text \<open>
  C6. Column equality in the differ. In two tables whose column names are unique, a
  column \<open>s\<close> of the source and the column \<open>t\<close> of the target with the same name are
  reported in \<open>changed\<close> by \<open>compareColumns\<close> if and only if their data types, their
  nullable flags, their defaults, their generation kinds or their collations differ,
  where an absent value and \<open>null\<close> are the same value. The length and the precision and
  scale of a column are not looked at.
\<close>

theorem compareColumns_reports_change_iff:
  assumes "distinct (map col_name (columns source))"
    and "distinct (map col_name (columns target))"
    and "s \<in> set (columns source)" and "t \<in> set (columns target)"
    and "col_name s = col_name t"
  shows "(col_name s \<in> ce_name ` set (changed (compareColumns source target))) =
           (dataType s \<noteq> dataType t \<or> nullable s \<noteq> nullable t
            \<or> orNull (col_default s) \<noteq> orNull (col_default t)
            \<or> orNull (generated s) \<noteq> orNull (generated t)
            \<or> orNull (collation s) \<noteq> orNull (collation t))"
proof -
  have get: "mapGet (newMap (map (\<lambda>column. (col_name column, column)) (columns target))) (col_name s) = Some t"
    using mapGet_newMap_distinct[OF assms(2) assms(4)] assms(5) by simp
  have uniq: "c = s" if "c \<in> set (columns source)" "col_name c = col_name s" for c
    using that assms(1,3) by (meson distinct_map inj_onD)
  have "(col_name s \<in> ce_name ` set (changed (compareColumns source target))) = (diffColumn s t \<noteq> None)"
    unfolding changed_compareColumns_names
  proof
    assume "col_name s \<in> {col_name c | c t. c \<in> set (columns source)
        \<and> mapGet (newMap (map (\<lambda>column. (col_name column, column)) (columns target))) (col_name c) = Some t
        \<and> diffColumn c t \<noteq> None}"
    then obtain c t' where c: "col_name s = col_name c" "c \<in> set (columns source)"
      and t': "mapGet (newMap (map (\<lambda>column. (col_name column, column)) (columns target))) (col_name c) = Some t'"
      and d: "diffColumn c t' \<noteq> None"
      by blast
    have "c = s" using uniq[of c] c by simp
    moreover have "t' = t" using t' get c(1) by simp
    ultimately show "diffColumn s t \<noteq> None" using d by simp
  next
    assume "diffColumn s t \<noteq> None"
    then show "col_name s \<in> {col_name c | c t. c \<in> set (columns source)
        \<and> mapGet (newMap (map (\<lambda>column. (col_name column, column)) (columns target))) (col_name c) = Some t
        \<and> diffColumn c t \<noteq> None}"
      using get assms(3) by blast
  qed
  also have "\<dots> = (dataType s \<noteq> dataType t \<or> nullable s \<noteq> nullable t
            \<or> orNull (col_default s) \<noteq> orNull (col_default t)
            \<or> orNull (generated s) \<noteq> orNull (generated t)
            \<or> orNull (collation s) \<noteq> orNull (collation t))"
    unfolding diffColumn_None_iff by blast
  finally show ?thesis .
qed


theorem compareColumns_reports_change_iff_witness:
  "(col_name (exEmail 255) \<in> ce_name ` set (changed (compareColumns exUsersA exUsersB))) = False
   \<and> col_length (exEmail 255) \<noteq> col_length (exEmail 128)"
  using compareColumns_reports_change_iff[of exUsersA exUsersB "exEmail 255" "exEmail 128"]
  by (simp add: exUsersA_def exUsersB_def exEmail_def exId_def exStatus_def)

text \<open>
  C7, as stated: with \<open>safeMode\<close>, a script with a drop of any kind has the
  \<open>-- SAFE MODE:\<close> banner. The script of the repository's generator test drops a
  column and an index, both commented out, and has no banner.
\<close>

theorem safe_mode_banner_counterexample:
  "safeMode exSafe
   \<and> toPostgres (computeDiff exModelA exModelB) exSafe
       = ''BEGIN;'' @ [CHR 0x0A, CHR 0x0A]
         @ ''-- ALTER TABLE '' @ [CHR 0x22] @ ''users'' @ [CHR 0x22]
         @ '' DROP COLUMN '' @ [CHR 0x22] @ ''status'' @ [CHR 0x22] @ '';'' @ [CHR 0x0A, CHR 0x0A]
         @ ''-- DROP INDEX '' @ [CHR 0x22] @ ''users_status_idx'' @ [CHR 0x22] @ '';''
         @ [CHR 0x0A, CHR 0x0A] @ ''COMMIT;''
   \<and> safeModeBanner \<notin> set (scriptLines (toPostgres (computeDiff exModelA exModelB) exSafe))"
  by code_simp

text \<open>
  C7, amended. With \<open>safeMode\<close>, whenever a table is to be dropped, the script of either
  dialect starts with the banner, after the transaction opener if there is one: the
  banner stands before every drop of the script.
\<close>

theorem safe_mode_banner_on_table_drops:
  assumes "safeMode opts" and "toDrop (planTables diff opts) \<noteq> []"
  shows "prefix ((if withTransaction opts then ''BEGIN;'' @ EOL @ EOL else []) @ safeModeBanner @ EOL @ EOL)
           (toPostgres diff opts)
       \<and> prefix ((if withTransaction opts then ''START TRANSACTION;'' @ EOL @ EOL else [])
                   @ safeModeBanner @ EOL @ EOL)
           (toMariaDB diff opts)"
proof
  from banner_first_pg[OF assms] obtain rest where
    "filter nonBlank (toPostgresLines diff opts)
           = (if withTransaction opts then [''BEGIN;''] else []) @ safeModeBanner # rest" "rest \<noteq> []"
    by blast
  from prefix_join_banner[OF this(2) this(1), of "EOL @ EOL"]
  show "prefix ((if withTransaction opts then ''BEGIN;'' @ EOL @ EOL else []) @ safeModeBanner @ EOL @ EOL)
           (toPostgres diff opts)"
    by (simp add: toPostgres_def)
next
  from banner_first_maria[OF assms] obtain rest where
    "filter nonBlank (toMariaDBLines diff opts)
           = (if withTransaction opts then [''START TRANSACTION;''] else []) @ safeModeBanner # rest" "rest \<noteq> []"
    by blast
  from prefix_join_banner[OF this(2) this(1), of "EOL @ EOL"]
  show "prefix ((if withTransaction opts then ''START TRANSACTION;'' @ EOL @ EOL else [])
                   @ safeModeBanner @ EOL @ EOL)
           (toMariaDB diff opts)"
    by (simp add: toMariaDB_def)
qed

theorem safe_mode_banner_on_table_drops_witness:
  "prefix (''BEGIN;'' @ EOL @ EOL @ safeModeBanner @ EOL @ EOL)
     (toPostgres (computeDiff (exTables []) (exTables [exTable ''audit_log'' ''bigint''])) exSafe)
   \<and> prefix (''START TRANSACTION;'' @ EOL @ EOL @ safeModeBanner @ EOL @ EOL)
     (toMariaDB (computeDiff (exTables []) (exTables [exTable ''audit_log'' ''bigint''])) exSafe)"
proof -
  have h1: "safeMode exSafe"
    by (simp add: exSafe_def)
  have h2: "toDrop (planTables (computeDiff (exTables []) (exTables [exTable ''audit_log'' ''bigint''])) exSafe) \<noteq> []"
    by code_simp
  have h3: "withTransaction exSafe"
    by (simp add: exSafe_def)
  show ?thesis
    using safe_mode_banner_on_table_drops[OF h1 h2] h3 by simp
qed

text \<open>
  C8. The PostgreSQL loader recovers uniqueness, access method and columns of an index
  from \<open>indexdef\<close> and skips the index behind the primary key. The loop pushes an index
  for every row of \<open>pg_indexes\<close> whose table is known: for the table \<open>users\<close> with the
  primary key \<open>users_pkey\<close>, the row of the index \<open>users_pkey\<close> is parsed (unique, access
  method \<open>btree\<close>, column \<open>id\<close>) and the index is in the indexes of the table.
\<close>

theorem primary_key_index_not_skipped:
  "map fst (introspectIndexes [exPkeyRow] [(''users'', exUsersLoaded)]) = [''users'']
   \<and> map (map_option pk_name \<circ> primaryKey \<circ> snd)
         (introspectIndexes [exPkeyRow] [(''users'', exUsersLoaded)])
       = [Some (Value ''users_pkey'')]
   \<and> map (indexes \<circ> snd) (introspectIndexes [exPkeyRow] [(''users'', exUsersLoaded)])
       = [[\<lparr> idx_name = ''users_pkey'', unique = True, idx_columns = [''id''],
            idx_using = Some ''btree'' \<rparr>]]"
proof -
  have parsed: "parseIndex exPkeyRow
      = \<lparr> idx_name = ''users_pkey'', unique = True, idx_columns = [''id''],
          idx_using = Some ''btree'' \<rparr>"
    by code_simp
  have name: "tablename exPkeyRow = ''users''"
    by (simp add: exPkeyRow_def)
  show ?thesis
    by (simp add: introspectIndexes_def mapHas_def name parsed exUsersLoaded_def)
qed

text \<open>
  C9. In a diff that \<open>computeDiff\<close> produced, every name listed in the \<open>columnChanges\<close>
  of a changed table is the name of a column of the source table and of a column of
  the target table. So, for either direction, \<open>buildTablePlan\<close> finds the column of
  that name in the desired table: the fallback to \<open>desired.columns[0]\<close> is not taken,
  and the alteration is the one built from the column found, not the
  \<open>-- TODO: review column\<close> comment.
\<close>

theorem columnChanges_name_on_both_sides:
  assumes "change \<in> set (changed (d_tables (computeDiff a b)))"
    and "ce \<in> set (columnChanges change)"
  shows "ce_name ce \<in> col_name ` set (columns (sourceTable change))
         \<and> ce_name ce \<in> col_name ` set (columns (tc_table change))
         \<and> (\<exists>col. find (\<lambda>c. col_name c = ce_name ce) (columns (desired (buildTablePlan change dir))) = Some col
                  \<and> desiredColumnFor (desired (buildTablePlan change dir)) (ce_name ce) = Some col
                  \<and> alterColumn (desired (buildTablePlan change dir)) (plan_table (buildTablePlan change dir)) ce
                      = \<lparr> alt_column = Some col,
                          alt_change = alterStatements (ce_name ce) (ce_change ce) col \<rparr>)"
proof -
  from assms(1) have "change \<in> set (changed (diffTables (tables a) (tables b)))"
    by (simp add: computeDiff_def)
  then obtain table counterpart where d: "diffTable table counterpart = Some change"
    using changed_diffTables by blast
  note s = diffTable_Some[OF d]
  have both: "ce_name ce \<in> col_name ` set (columns (sourceTable change))
         \<and> ce_name ce \<in> col_name ` set (columns (tc_table change))"
    using changed_compareColumns_both[of ce table counterpart] assms(2) s by simp
  then have des: "ce_name ce \<in> col_name ` set (columns (desired (buildTablePlan change dir)))"
    by (simp add: buildTablePlan_simps)
  from find_name_Some[OF des] obtain col where
    f: "find (\<lambda>c. col_name c = ce_name ce) (columns (desired (buildTablePlan change dir))) = Some col"
    by blast
  then have g: "desiredColumnFor (desired (buildTablePlan change dir)) (ce_name ce) = Some col"
    by (simp add: desiredColumnFor_def)
  then have "alterColumn (desired (buildTablePlan change dir)) (plan_table (buildTablePlan change dir)) ce
                      = \<lparr> alt_column = Some col,
                          alt_change = alterStatements (ce_name ce) (ce_change ce) col \<rparr>"
    by (simp add: alterColumn_def)
  with both f g show ?thesis by blast
qed

theorem columnChanges_name_on_both_sides_witness:
  "ce_name (hd (columnChanges exAccountsChange))
     \<in> col_name ` set (columns (sourceTable exAccountsChange))
   \<and> ce_name (hd (columnChanges exAccountsChange))
     \<in> col_name ` set (columns (tc_table exAccountsChange))
   \<and> (\<exists>col. find (\<lambda>c. col_name c = ce_name (hd (columnChanges exAccountsChange)))
                  (columns (desired (buildTablePlan exAccountsChange AtoB))) = Some col
            \<and> desiredColumnFor (desired (buildTablePlan exAccountsChange AtoB))
                  (ce_name (hd (columnChanges exAccountsChange))) = Some col
            \<and> alterColumn (desired (buildTablePlan exAccountsChange AtoB))
                  (plan_table (buildTablePlan exAccountsChange AtoB))
                  (hd (columnChanges exAccountsChange))
                = \<lparr> alt_column = Some col,
                    alt_change = alterStatements (ce_name (hd (columnChanges exAccountsChange)))
                      (ce_change (hd (columnChanges exAccountsChange))) col \<rparr>)"
proof -
  have "changed (d_tables (computeDiff (exTables [exTable ''accounts'' ''int''])
                             (exTables [exTable ''accounts'' ''bigint'']))) \<noteq> []"
    by code_simp
  then have h1: "exAccountsChange
      \<in> set (changed (d_tables (computeDiff (exTables [exTable ''accounts'' ''int''])
                                  (exTables [exTable ''accounts'' ''bigint'']))))"
    unfolding exAccountsChange_def by (rule hd_in_set)
  have "columnChanges (hd (changed (d_tables (computeDiff (exTables [exTable ''accounts'' ''int''])
                             (exTables [exTable ''accounts'' ''bigint''])))))  \<noteq> []"
    by code_simp
  then have h2: "hd (columnChanges exAccountsChange) \<in> set (columnChanges exAccountsChange)"
    unfolding exAccountsChange_def by (rule hd_in_set)
  show ?thesis
    using columnChanges_name_on_both_sides[OF h1 h2, of AtoB] .
qed

text \<open>
  C10. Trigger change detection is sensitive to the order of the events. In two models
  whose trigger keys are unique, a trigger \<open>s\<close> of the source and the trigger \<open>t\<close> of
  the target under the same key \<open>table.name\<close> are reported in \<open>changed\<close> if and only if
  their timings differ, or their event lists joined by commas in stored order differ,
  or their definitions differ. The joined texts are equal only for equal lists, so
  the same events in another order are a change.
\<close>

theorem trigger_change_detection:
  assumes "distinct (map triggerKey (triggers a))"
    and "distinct (map triggerKey (triggers b))"
    and "s \<in> set (triggers a)" and "t \<in> set (triggers b)"
    and "triggerKey s = triggerKey t"
  shows "(triggerKey s \<in> ce_name ` set (changed (d_triggers (computeDiff a b)))) =
           (trg_timing s \<noteq> trg_timing t
            \<or> join '','' (map eventString (trg_events s)) \<noteq> join '','' (map eventString (trg_events t))
            \<or> trg_definition s \<noteq> trg_definition t)
         \<and> (join '','' (map eventString (trg_events s)) = join '','' (map eventString (trg_events t)))
            = (trg_events s = trg_events t)"
proof -
  have gs: "mapGet (newMap (map (\<lambda>x. (triggerKey x, x)) (triggers a))) (triggerKey s) = Some s"
    by (rule mapGet_newMap_distinct[OF assms(1) assms(3)])
  have gt: "mapGet (newMap (map (\<lambda>x. (triggerKey x, x)) (triggers b))) (triggerKey s) = Some t"
    using mapGet_newMap_distinct[OF assms(2) assms(4)] assms(5) by simp
  have "(triggerKey s \<in> ce_name ` set (changed (d_triggers (computeDiff a b))))
      = (triggerValue s \<noteq> triggerValue t)"
    unfolding computeDiff_def DiffResult.simps changed_diffCollection_names
    using gs gt by auto
  then show ?thesis
    unfolding triggerValue_eq_iff join_events_inj by blast
qed

theorem trigger_change_detection_witness:
  "triggerKey (exTrigger [Insert, Update])
     \<in> ce_name ` set (changed (d_triggers (computeDiff (exTriggers [exTrigger [Insert, Update]])
                                                      (exTriggers [exTrigger [Update, Insert]]))))
   \<and> set (trg_events (exTrigger [Insert, Update])) = set (trg_events (exTrigger [Update, Insert]))"
  using trigger_change_detection[of "exTriggers [exTrigger [Insert, Update]]"
      "exTriggers [exTrigger [Update, Insert]]" "exTrigger [Insert, Update]" "exTrigger [Update, Insert]"]
  by (simp add: exTriggers_def exTrigger_def triggerKey_def insert_commute)

end
